theory Spec2Isabelle
  imports Main "HOL-Library.AList"
begin

section \<open>Python values, errors and dictionaries\<close>

text \<open>
  The gateway handles JSON-like values: responses of the transport, schema tables and
  the gateway-info dictionary. A dictionary is an association list, so that the insertion
  order of Python's \<^verbatim>\<open>dict\<close> (which \<^verbatim>\<open>values()\<close> follows) is kept.
\<close>

datatype pyval =
    PNone
  | PBool bool
  | PInt int
  | PStr string
  | PList "pyval list"
  | PDict "(string \<times> pyval) list"

datatype error =
    DeviceException
  | KeyError
  | AttributeError
  | TypeError
  | ValueError
  | IndexError
  | RecursionError

type_synonym 'a dict = "(string \<times> 'a) list"

text \<open>Truth value of an object, as \<^verbatim>\<open>if x:\<close> tests it.\<close>

fun truthy :: "pyval \<Rightarrow> bool" where
  "truthy PNone = False"
| "truthy (PBool b) = b"
| "truthy (PInt i) = (i \<noteq> 0)"
| "truthy (PStr s) = (s \<noteq> [])"
| "truthy (PList xs) = (xs \<noteq> [])"
| "truthy (PDict d) = (d \<noteq> [])"

definition dict_get :: "'a dict \<Rightarrow> string \<Rightarrow> 'a option" where
  "dict_get d k = map_of d k"

definition dict_contains :: "'a dict \<Rightarrow> string \<Rightarrow> bool" where
  "dict_contains d k = (k \<in> set (map fst d))"

text \<open>\<^verbatim>\<open>d[k] = v\<close>: an existing key keeps its position, a new key goes last.\<close>

definition dict_setitem :: "string \<Rightarrow> 'a \<Rightarrow> 'a dict \<Rightarrow> 'a dict" where
  "dict_setitem k v d = AList.update k v d"

text \<open>\<^verbatim>\<open>d.update(e)\<close>: every entry of \<open>e\<close> is stored into \<open>d\<close>, in the order of \<open>e\<close>.\<close>

definition dict_update :: "'a dict \<Rightarrow> 'a dict \<Rightarrow> 'a dict" where
  "dict_update d e = fold (\<lambda>kv acc. dict_setitem (fst kv) (snd kv) acc) e d"

text \<open>\<^verbatim>\<open>d.pop(k, None)\<close>, the popped value dropped.\<close>

definition dict_pop :: "string \<Rightarrow> 'a dict \<Rightarrow> 'a dict" where
  "dict_pop k d = AList.delete k d"

text \<open>\<^verbatim>\<open>needle in haystack\<close> on strings is a substring test.\<close>

fun is_substring :: "string \<Rightarrow> string \<Rightarrow> bool" where
  "is_substring xs [] = (xs = [])"
| "is_substring xs (y # ys) = (take (length xs) (y # ys) = xs \<or> is_substring xs ys)"

text \<open>\<^verbatim>\<open>key in x\<close> for a string key.\<close>

fun py_in :: "string \<Rightarrow> pyval \<Rightarrow> error + bool" where
  "py_in k (PDict d) = Inr (dict_contains d k)"
| "py_in k (PList xs) = Inr (PStr k \<in> set xs)"
| "py_in k (PStr s) = Inr (is_substring k s)"
| "py_in k PNone = Inl TypeError"
| "py_in k (PBool b) = Inl TypeError"
| "py_in k (PInt i) = Inl TypeError"

text \<open>\<^verbatim>\<open>x.get(key)\<close>: only a dictionary has the method.\<close>

fun py_get :: "pyval \<Rightarrow> string \<Rightarrow> error + pyval" where
  "py_get (PDict d) k = Inr (case dict_get d k of None \<Rightarrow> PNone | Some v \<Rightarrow> v)"
| "py_get PNone k = Inl AttributeError"
| "py_get (PBool b) k = Inl AttributeError"
| "py_get (PInt i) k = Inl AttributeError"
| "py_get (PStr s) k = Inl AttributeError"
| "py_get (PList xs) k = Inl AttributeError"

text \<open>\<^verbatim>\<open>x[key]\<close> for a string key.\<close>

fun py_getitem :: "pyval \<Rightarrow> string \<Rightarrow> error + pyval" where
  "py_getitem (PDict d) k = (case dict_get d k of None \<Rightarrow> Inl KeyError | Some v \<Rightarrow> Inr v)"
| "py_getitem PNone k = Inl TypeError"
| "py_getitem (PBool b) k = Inl TypeError"
| "py_getitem (PInt i) k = Inl TypeError"
| "py_getitem (PStr s) k = Inl TypeError"
| "py_getitem (PList xs) k = Inl TypeError"

text \<open>\<^verbatim>\<open>x.values()\<close>.\<close>

fun py_values :: "pyval \<Rightarrow> error + pyval list" where
  "py_values (PDict d) = Inr (map snd d)"
| "py_values PNone = Inl AttributeError"
| "py_values (PBool b) = Inl AttributeError"
| "py_values (PInt i) = Inl AttributeError"
| "py_values (PStr s) = Inl AttributeError"
| "py_values (PList xs) = Inl AttributeError"

section \<open>Constants of the \<^verbatim>\<open>const\<close> module\<close>

text \<open>
  Modelled from the spec: the module \<^verbatim>\<open>bosch_thermostat_client.const\<close> is not among the
  sources. Each constant is the key its name stands for in the schema sections and
  descriptors of the spec (gateway info, heating circuits, dhw circuits, sensors, reference
  id, value). No theorem below depends on the spelling of a key, only on which keys differ.
\<close>

definition GATEWAY :: string where "GATEWAY = ''gateway''"
definition HC :: string where "HC = ''hc''"
definition DHW :: string where "DHW = ''dhw''"
definition SC :: string where "SC = ''sc''"
definition SENSORS :: string where "SENSORS = ''sensors''"
definition SENSOR :: string where "SENSOR = ''sensor''"
definition HEATING_CIRCUITS :: string where "HEATING_CIRCUITS = ''heatingCircuits''"
definition DHW_CIRCUITS :: string where "DHW_CIRCUITS = ''dhwCircuits''"
definition MODELS :: string where "MODELS = ''models''"
definition REFS :: string where "REFS = ''refs''"
definition ID :: string where "ID = ''id''"
definition NAME :: string where "NAME = ''name''"
definition TYPE_key :: string where "TYPE_key = ''type''"
definition VALUE :: string where "VALUE = ''value''"
definition UUID :: string where "UUID = ''uuid''"
definition DATE :: string where "DATE = ''dateTime''"
definition FIRMWARE_VERSION :: string where "FIRMWARE_VERSION = ''versionFirmware''"

section \<open>Gateway state\<close>

text \<open>
  An entity instance (a circuit or a sensor) is identified by its resolved path. A slot of
  \<^verbatim>\<open>self._data\<close> holds the gateway-info dictionary, \<^verbatim>\<open>None\<close>, a
  \<^verbatim>\<open>Circuits\<close> object or a \<^verbatim>\<open>Sensors\<close> object.
\<close>

type_synonym entity = string

datatype slot =
    Info "pyval dict"
  | Unset
  | CircuitsObj "entity list"
  | SensorsObj "entity list"

record gateway =
  self_host :: string
  self_data :: "slot dict"
  self_firmware_version :: pyval
  self_device :: "pyval dict option"
  self_db :: pyval
  self_initialized :: pyval
  self_bus_type :: pyval

text \<open>\<^verbatim>\<open>BaseGateway.__init__\<close>\<close>

definition BaseGateway :: "string \<Rightarrow> gateway" where
  "BaseGateway h =
     \<lparr> self_host = h,
       self_data = [(GATEWAY, Info []), (HC, Unset), (DHW, Unset), (SENSORS, Unset)],
       self_firmware_version = PNone,
       self_device = None,
       self_db = PNone,
       self_initialized = PNone,
       self_bus_type = PNone \<rparr>"

section \<open>Transport\<close>

text \<open>
  The connector answers a fetch by path with a value or fails with a
  \<^verbatim>\<open>DeviceException\<close>. The device may answer differently over time: its reply
  depends on the fetches made so far. Every fetch is recorded.
\<close>

record transport =
  reply :: "pyval list \<Rightarrow> pyval \<Rightarrow> pyval option"
  fetched :: "pyval list"

definition connector_get :: "pyval \<Rightarrow> transport \<Rightarrow> (error + pyval) \<times> transport" where
  "connector_get path t =
     ((case reply t (fetched t) path of None \<Rightarrow> Inl DeviceException | Some v \<Rightarrow> Inr v),
      t\<lparr>fetched := fetched t @ [path]\<rparr>)"

section \<open>Collaborators\<close>

text \<open>
  Modelled from the spec: the members a concrete device family supplies
  (\<^verbatim>\<open>device_type\<close>, \<^verbatim>\<open>_update_info\<close>, \<^verbatim>\<open>get_device_model\<close>), the schema
  store (\<^verbatim>\<open>get_initial_db\<close>, \<^verbatim>\<open>get_db_of_firmware\<close>, \<^verbatim>\<open>get_custom_db\<close>), the
  capability collections (\<^verbatim>\<open>Circuits\<close>, \<^verbatim>\<open>Sensors\<close>) and the tree prober
  (\<^verbatim>\<open>deep_into\<close>) are not among the sources. They are parameters of the gateway
  operations, with the interface the spec gives them:
  \<^item> the two abstract methods run on the gateway and the transport and may change both;
    \<^verbatim>\<open>get_device_model\<close> returns a descriptor dictionary or nothing;
  \<^item> the schema store returns schemas that are independent copies; the base schema is
    always available, a firmware schema may be absent, and no lookup raises;
    \<^verbatim>\<open>get_initial_db\<close> is called with the device type or with no argument;
  \<^item> \<^verbatim>\<open>Circuits(connector, type, bus, device_type).initialize(db, date_provider)\<close> uses
    the transport, leaves the gateway state alone, and ends (normally or with an error)
    with the circuits its object holds;
  \<^item> \<^verbatim>\<open>Sensors(connector, chosen, sensors_schema)\<close> is built from the schema without
    a fetch;
  \<^item> \<^verbatim>\<open>deep_into(uri, [], connector.get)\<close> uses the transport only;
  \<^item> \<^verbatim>\<open>CIRCUIT_TYPES\<close> (here the list of its keys, in order) and \<^verbatim>\<open>ROOT_PATHS\<close>
    are tables of the \<^verbatim>\<open>const\<close> module.
\<close>

text \<open>
  Two parameters are Python's own. The formatting of a template is modelled below for
  replacement fields that are empty, a number or a plain name. What \<^verbatim>\<open>str.format\<close>
  makes of the rest of a template from a field on that has an attribute, an index, a
  conversion, a format specification or a character outside ASCII is the parameter
  \<open>str_format_beyond\<close>: it gets that rest (from the opening brace on), the state of the
  field numbering and the argument. \<open>sys_maxsize\<close> is \<^verbatim>\<open>sys.maxsize\<close>, the largest
  index a field may name.
\<close>

datatype numbering = Unnumbered | Automatic nat | Manual

record deps =
  device_type :: pyval
  update_info :: "pyval \<Rightarrow> gateway \<times> transport \<Rightarrow> (error + unit) \<times> gateway \<times> transport"
  get_device_model ::
    "pyval dict \<Rightarrow> gateway \<times> transport \<Rightarrow> (error + pyval dict option) \<times> gateway \<times> transport"
  get_initial_db :: "pyval option \<Rightarrow> pyval dict"
  get_db_of_firmware :: "pyval \<Rightarrow> pyval \<Rightarrow> pyval dict option"
  get_custom_db :: "pyval \<Rightarrow> pyval \<Rightarrow> pyval dict"
  Circuits_initialize ::
    "string \<Rightarrow> pyval \<Rightarrow> pyval \<Rightarrow> pyval \<Rightarrow> transport \<Rightarrow> (error + unit) \<times> entity list \<times> transport"
  Sensors_new :: "pyval \<Rightarrow> pyval \<Rightarrow> entity list"
  deep_into :: "pyval \<Rightarrow> transport \<Rightarrow> (error + pyval) \<times> transport"
  CIRCUIT_TYPES :: "string list"
  ROOT_PATHS :: "pyval list"
  str_format_beyond :: "string \<Rightarrow> numbering \<Rightarrow> string \<Rightarrow> error + string"
  sys_maxsize :: int

section \<open>Read accessors\<close>

definition host :: "gateway \<Rightarrow> string" where
  "host g = self_host g"

definition device_name :: "gateway \<Rightarrow> pyval" where
  "device_name g =
     (case self_device g of
        None \<Rightarrow> PNone
      | Some d \<Rightarrow> if d \<noteq> [] then (case dict_get d NAME of None \<Rightarrow> PNone | Some v \<Rightarrow> v) else PNone)"

definition bus_type :: "gateway \<Rightarrow> pyval" where
  "bus_type g = self_bus_type g"

definition database :: "gateway \<Rightarrow> pyval" where
  "database g = self_db g"

definition firmware :: "gateway \<Rightarrow> pyval" where
  "firmware g = self_firmware_version g"

text \<open>The attribute \<^verbatim>\<open>.circuits\<close> exists on a \<^verbatim>\<open>Circuits\<close> object only.\<close>

fun slot_circuits :: "slot \<Rightarrow> error + entity list" where
  "slot_circuits (CircuitsObj es) = Inr es"
| "slot_circuits (Info d) = Inl AttributeError"
| "slot_circuits Unset = Inl AttributeError"
| "slot_circuits (SensorsObj es) = Inl AttributeError"

text \<open>The attribute \<^verbatim>\<open>.sensors\<close> exists on a \<^verbatim>\<open>Sensors\<close> object only.\<close>

fun slot_sensors :: "slot \<Rightarrow> error + entity list" where
  "slot_sensors (SensorsObj es) = Inr es"
| "slot_sensors (Info d) = Inl AttributeError"
| "slot_sensors Unset = Inl AttributeError"
| "slot_sensors (CircuitsObj es) = Inl AttributeError"

definition heating_circuits :: "gateway \<Rightarrow> error + entity list" where
  "heating_circuits g =
     (case dict_get (self_data g) HC of None \<Rightarrow> Inl KeyError | Some s \<Rightarrow> slot_circuits s)"

definition get_circuits :: "gateway \<Rightarrow> string \<Rightarrow> error + entity list option" where
  "get_circuits g ctype =
     (case dict_get (self_data g) ctype of
        None \<Rightarrow> Inr None
      | Some s \<Rightarrow> (case slot_circuits s of Inl e \<Rightarrow> Inl e | Inr es \<Rightarrow> Inr (Some es)))"

definition dhw_circuits :: "gateway \<Rightarrow> error + entity list" where
  "dhw_circuits g =
     (case dict_get (self_data g) DHW of None \<Rightarrow> Inl KeyError | Some s \<Rightarrow> slot_circuits s)"

definition solar_circuits :: "gateway \<Rightarrow> error + entity list" where
  "solar_circuits g =
     (case dict_get (self_data g) SC of None \<Rightarrow> Inl KeyError | Some s \<Rightarrow> slot_circuits s)"

definition sensors :: "gateway \<Rightarrow> error + entity list" where
  "sensors g =
     (case dict_get (self_data g) SENSORS of None \<Rightarrow> Inl KeyError | Some s \<Rightarrow> slot_sensors s)"

text \<open>
  \<^verbatim>\<open>get_info\<close>: \<^verbatim>\<open>key in self._data[GATEWAY]\<close> raises when the slot is not a
  dictionary.
\<close>

definition get_info :: "gateway \<Rightarrow> string \<Rightarrow> error + pyval" where
  "get_info g key =
     (case dict_get (self_data g) GATEWAY of
        None \<Rightarrow> Inl KeyError
      | Some (Info d) \<Rightarrow> Inr (case dict_get d key of None \<Rightarrow> PNone | Some v \<Rightarrow> v)
      | Some _ \<Rightarrow> Inl TypeError)"

definition uuid :: "gateway \<Rightarrow> error + pyval" where
  "uuid g = get_info g UUID"

section \<open>Schema binding\<close>

text \<open>\<^verbatim>\<open>self._data[GATEWAY][key] = v\<close>\<close>

definition info_setitem :: "gateway \<Rightarrow> string \<Rightarrow> pyval \<Rightarrow> error + gateway" where
  "info_setitem g key v =
     (case dict_get (self_data g) GATEWAY of
        None \<Rightarrow> Inl KeyError
      | Some (Info d) \<Rightarrow>
          Inr (g\<lparr>self_data := dict_setitem GATEWAY (Info (dict_setitem key v d)) (self_data g)\<rparr>)
      | Some _ \<Rightarrow> Inl TypeError)"

text \<open>\<^verbatim>\<open>self._data[GATEWAY].get(key)\<close>\<close>

definition info_get :: "gateway \<Rightarrow> string \<Rightarrow> error + pyval" where
  "info_get g key =
     (case dict_get (self_data g) GATEWAY of
        None \<Rightarrow> Inl KeyError
      | Some (Info d) \<Rightarrow> Inr (case dict_get d key of None \<Rightarrow> PNone | Some v \<Rightarrow> v)
      | Some _ \<Rightarrow> Inl AttributeError)"

text \<open>
  The merge both initialisations perform: \<^verbatim>\<open>initial_db.pop(MODELS, None)\<close> followed by
  \<^verbatim>\<open>self._db.update(initial_db)\<close>.
\<close>

definition merge_db :: "pyval dict \<Rightarrow> pyval dict \<Rightarrow> pyval dict" where
  "merge_db db initial_db = dict_update db (dict_pop MODELS initial_db)"

definition get_base_db :: "deps \<Rightarrow> pyval dict" where
  "get_base_db env = get_initial_db env (Some (device_type env))"

definition initialize :: "deps \<Rightarrow> gateway \<times> transport \<Rightarrow> (error + unit) \<times> gateway \<times> transport" where
  "initialize env s =
     (let initial_db = get_base_db env in
      case update_info env (case dict_get initial_db GATEWAY of None \<Rightarrow> PNone | Some v \<Rightarrow> v) s of
        (Inl e, s1) \<Rightarrow> (Inl e, s1)
      | (Inr _, g1, t1) \<Rightarrow>
          (case info_get g1 FIRMWARE_VERSION of
             Inl e \<Rightarrow> (Inl e, g1, t1)
           | Inr fw \<Rightarrow>
               (case get_device_model env initial_db (g1\<lparr>self_firmware_version := fw\<rparr>, t1) of
                  (Inl e, s2) \<Rightarrow> (Inl e, s2)
                | (Inr dev, g2, t2) \<Rightarrow>
                    (let g3 = g2\<lparr>self_device := dev\<rparr> in
                     case dev of
                       None \<Rightarrow> (Inr (), g3, t2)
                     | Some d \<Rightarrow>
                         if d \<noteq> [] \<and> dict_contains d VALUE then
                           (case dict_get d TYPE_key of
                              None \<Rightarrow> (Inl KeyError, g3, t2)
                            | Some ty \<Rightarrow>
                                (case get_db_of_firmware env ty (self_firmware_version g3) of
                                   None \<Rightarrow> (Inr (), g3\<lparr>self_db := PNone\<rparr>, t2)
                                 | Some db \<Rightarrow>
                                     if db \<noteq> [] then
                                       (Inr (),
                                        g3\<lparr>self_db := PDict (merge_db db initial_db),
                                           self_initialized := PBool True\<rparr>,
                                        t2)
                                     else (Inr (), g3\<lparr>self_db := PDict db\<rparr>, t2)))
                         else (Inr (), g3, t2)))))"

definition custom_initialize :: "deps \<Rightarrow> pyval \<Rightarrow> gateway \<Rightarrow> gateway" where
  "custom_initialize env extra_db g =
     (if truthy (self_firmware_version g) then
        g\<lparr>self_db :=
             PDict (merge_db (get_custom_db env (self_firmware_version g) extra_db)
                      (get_initial_db env None)),
          self_initialized := PBool True\<rparr>
      else g)"

section \<open>Capability discovery\<close>

text \<open>
  \<^verbatim>\<open>current_date\<close>: the right-hand side \<^verbatim>\<open>response.get(VALUE)\<close> is evaluated before
  the store into the gateway-info dictionary.
\<close>

definition current_date :: "gateway \<times> transport \<Rightarrow> (error + pyval) \<times> gateway \<times> transport" where
  "current_date s =
     (case s of (g, t) \<Rightarrow>
      case py_getitem (self_db g) GATEWAY of
        Inl e \<Rightarrow> (Inl e, g, t)
      | Inr gw \<Rightarrow>
          (case py_get gw DATE of
             Inl e \<Rightarrow> (Inl e, g, t)
           | Inr path \<Rightarrow>
               (case connector_get path t of
                  (Inl e, t1) \<Rightarrow> (Inl e, g, t1)
                | (Inr response, t1) \<Rightarrow>
                    (case py_get response VALUE of
                       Inl e \<Rightarrow> (Inl e, g, t1)
                     | Inr v \<Rightarrow>
                         (case info_setitem g DATE v of
                            Inl e \<Rightarrow> (Inl e, g, t1)
                          | Inr g1 \<Rightarrow> (Inr v, g1, t1))))))"

text \<open>
  \<^verbatim>\<open>initialize_circuits\<close>: the new \<^verbatim>\<open>Circuits\<close> object is stored in the slot before
  its discovery runs, so the slot holds that object (with whatever circuits it collected)
  also when the discovery raises.
\<close>

definition initialize_circuits ::
  "deps \<Rightarrow> string \<Rightarrow> gateway \<times> transport \<Rightarrow> (error + entity list option) \<times> gateway \<times> transport" where
  "initialize_circuits env circ_type s =
     (case s of (g, t) \<Rightarrow>
      case Circuits_initialize env circ_type (self_bus_type g) (device_type env) (self_db g) t of
        (r, es, t1) \<Rightarrow>
          (let g1 = g\<lparr>self_data := dict_setitem circ_type (CircuitsObj es) (self_data g)\<rparr> in
           case r of
             Inl e \<Rightarrow> (Inl e, g1, t1)
           | Inr _ \<Rightarrow> (get_circuits g1 circ_type, g1, t1)))"

definition initialize_sensors :: "deps \<Rightarrow> pyval \<Rightarrow> gateway \<Rightarrow> (error + entity list) \<times> gateway" where
  "initialize_sensors env choosed_sensors g =
     (case (if \<not> truthy choosed_sensors then py_get (self_db g) SENSORS else Inr choosed_sensors) of
        Inl e \<Rightarrow> (Inl e, g)
      | Inr chosen \<Rightarrow>
          (case py_getitem (self_db g) SENSORS of
             Inl e \<Rightarrow> (Inl e, g)
           | Inr schema \<Rightarrow>
               (let g1 = g\<lparr>self_data :=
                             dict_setitem SENSORS (SensorsObj (Sensors_new env chosen schema))
                               (self_data g)\<rparr>
                in (sensors g1, g1))))"

text \<open>
  The loop of \<^verbatim>\<open>get_capabilities\<close> over the circuit categories: only a
  \<^verbatim>\<open>DeviceException\<close> is caught; \<^verbatim>\<open>if circuit_object:\<close> holds for a non-empty list.
\<close>

fun capabilities_loop ::
  "deps \<Rightarrow> string list \<Rightarrow> string list \<Rightarrow> gateway \<times> transport
     \<Rightarrow> (error + string list) \<times> gateway \<times> transport" where
  "capabilities_loop env [] supported s = (Inr supported, s)"
| "capabilities_loop env (circuit # rest) supported s =
     (case initialize_circuits env circuit s of
        (Inl e, s1) \<Rightarrow>
          if e = DeviceException then capabilities_loop env rest supported s1 else (Inl e, s1)
      | (Inr circuit_object, s1) \<Rightarrow>
          capabilities_loop env rest
            (if circuit_object \<noteq> None \<and> circuit_object \<noteq> Some [] then supported @ [circuit]
             else supported)
            s1)"

definition get_capabilities ::
  "deps \<Rightarrow> gateway \<times> transport \<Rightarrow> (error + string list) \<times> gateway \<times> transport" where
  "get_capabilities env s =
     (case capabilities_loop env (CIRCUIT_TYPES env) [] s of
        (Inl e, s1) \<Rightarrow> (Inl e, s1)
      | (Inr supported, g1, t1) \<Rightarrow>
          (case initialize_sensors env PNone g1 of
             (Inl e, g2) \<Rightarrow> (Inl e, g2, t1)
           | (Inr _, g2) \<Rightarrow> (Inr (supported @ [SENSOR]), g2, t1)))"

text \<open>
  Vocabulary for the discovery of one category: the call \<^verbatim>\<open>initialize_circuits\<close> makes
  to the collaborator; the transport states on which the categories of a list are probed,
  one after the other, each on the transport as the discovery before it left it; whether a
  probe finds the category (it ends normally with a non-empty collection) and whether it
  fails softly at most (it ends normally or with a \<^verbatim>\<open>DeviceException\<close>).
\<close>

definition discovery ::
  "deps \<Rightarrow> gateway \<Rightarrow> string \<Rightarrow> transport \<Rightarrow> (error + unit) \<times> entity list \<times> transport" where
  "discovery env g circ_type t =
     Circuits_initialize env circ_type (self_bus_type g) (device_type env) (self_db g) t"

fun probe_transports :: "deps \<Rightarrow> gateway \<Rightarrow> string list \<Rightarrow> transport \<Rightarrow> transport list" where
  "probe_transports env g [] t = []"
| "probe_transports env g (c # cs) t =
     t # probe_transports env g cs (snd (snd (discovery env g c t)))"

definition found :: "deps \<Rightarrow> gateway \<Rightarrow> string \<times> transport \<Rightarrow> bool" where
  "found env g probe =
     (case discovery env g (fst probe) (snd probe) of
        (Inl e, es, t1) \<Rightarrow> False
      | (Inr u, es, t1) \<Rightarrow> es \<noteq> [])"

definition soft :: "deps \<Rightarrow> gateway \<Rightarrow> string \<times> transport \<Rightarrow> bool" where
  "soft env g probe =
     (case discovery env g (fst probe) (snd probe) of
        (Inl e, es, t1) \<Rightarrow> e = DeviceException
      | (Inr u, es, t1) \<Rightarrow> True)"

text \<open>
  No change in device state, as far as discovery can tell: on every transport to the
  device of \<open>t\<close>, whatever was fetched before, the discovery of a category ends the same
  way with the same circuits, and leaves a transport to the same device.
\<close>

definition steady_device :: "deps \<Rightarrow> gateway \<Rightarrow> transport \<Rightarrow> bool" where
  "steady_device env g t =
     (\<forall>c t1. reply t1 = reply t \<longrightarrow>
        fst (discovery env g c t1) = fst (discovery env g c t) \<and>
        fst (snd (discovery env g c t1)) = fst (snd (discovery env g c t)) \<and>
        reply (snd (snd (discovery env g c t1))) = reply t)"

section \<open>Scans\<close>

fun rawscan_loop ::
  "deps \<Rightarrow> pyval list \<Rightarrow> pyval list \<Rightarrow> transport \<Rightarrow> (error + pyval list) \<times> transport" where
  "rawscan_loop env [] rawlist t = (Inr rawlist, t)"
| "rawscan_loop env (root # rest) rawlist t =
     (case deep_into env root t of
        (Inl e, t1) \<Rightarrow> (Inl e, t1)
      | (Inr r, t1) \<Rightarrow> rawscan_loop env rest (rawlist @ [r]) t1)"

definition rawscan ::
  "deps \<Rightarrow> gateway \<times> transport \<Rightarrow> (error + pyval list) \<times> gateway \<times> transport" where
  "rawscan env s =
     (case s of (g, t) \<Rightarrow>
      case rawscan_loop env (ROOT_PATHS env) [] t of (r, t1) \<Rightarrow> (r, g, t1))"

text \<open>
  \<^verbatim>\<open>template.format(arg)\<close> with one positional argument and no keyword argument,
  read from left to right as CPython does. \<^verbatim>\<open>{{\<close> and \<^verbatim>\<open>}}\<close> stand for a brace; a
  single closing brace, an opening brace at the end or inside a field name, and a field
  that is not closed raise \<^verbatim>\<open>ValueError\<close>. A field name runs to the closing brace:
  \<^item> the empty name takes the next automatic index, and only index 0 has an argument
    (\<^verbatim>\<open>IndexError\<close> otherwise);
  \<^item> a name of decimal digits is an index: above \<^verbatim>\<open>sys.maxsize\<close> it raises
    \<^verbatim>\<open>ValueError\<close>, index 0 is the argument, any other index raises \<^verbatim>\<open>IndexError\<close>;
  \<^item> automatic and numbered fields do not mix (\<^verbatim>\<open>ValueError\<close>);
  \<^item> any other plain name is a keyword, and there is none (\<^verbatim>\<open>KeyError\<close>);
  \<^item> at the first character of a field that is not plain, the rest is left to
    \<open>str_format_beyond\<close>.
  The argument is a string and is inserted as it is.
\<close>

definition plain_field_char :: "char \<Rightarrow> bool" where
  "plain_field_char c = ((of_char c :: nat) < 128 \<and> c \<notin> set ''.[:!'')"

definition field_index :: "string \<Rightarrow> int" where
  "field_index field = fold (\<lambda>c n. 10 * n + ((of_char c :: int) - 48)) field 0"

definition format_field :: "deps \<Rightarrow> string \<Rightarrow> numbering \<Rightarrow> string \<Rightarrow> error + string \<times> numbering" where
  "format_field env field nb arg =
     (if field = [] then
        (case nb of
           Manual \<Rightarrow> Inl ValueError
         | Unnumbered \<Rightarrow> Inr (arg, Automatic 1)
         | Automatic n \<Rightarrow> if n = 0 then Inr (arg, Automatic 1) else Inl IndexError)
      else if list_all (\<lambda>c. c \<in> set ''0123456789'') field then
        (if sys_maxsize env < field_index field then Inl ValueError
         else
           (case nb of
              Automatic n \<Rightarrow> Inl ValueError
            | _ \<Rightarrow> if field_index field = 0 then Inr (arg, Manual) else Inl IndexError))
      else Inl KeyError)"

fun format_text :: "deps \<Rightarrow> string \<Rightarrow> numbering \<Rightarrow> string \<Rightarrow> error + string"
  and format_in_field ::
    "deps \<Rightarrow> string \<Rightarrow> string \<Rightarrow> string \<Rightarrow> numbering \<Rightarrow> string \<Rightarrow> error + string" where
  "format_text env [] nb arg = Inr []"
| "format_text env (c # cs) nb arg =
     (if c = CHR ''{'' then
        (case cs of
           [] \<Rightarrow> Inl ValueError
         | d # ds \<Rightarrow>
             if d = CHR ''{'' then map_sum id ((#) c) (format_text env ds nb arg)
             else format_in_field env (c # cs) cs [] nb arg)
      else if c = CHR ''}'' then
        (case cs of
           [] \<Rightarrow> Inl ValueError
         | d # ds \<Rightarrow>
             if d = CHR ''}'' then map_sum id ((#) c) (format_text env ds nb arg)
             else Inl ValueError)
      else map_sum id ((#) c) (format_text env cs nb arg))"
| "format_in_field env start [] field nb arg = Inl ValueError"
| "format_in_field env start (c # cs) field nb arg =
     (if c = CHR ''}'' then
        (case format_field env field nb arg of
           Inl e \<Rightarrow> Inl e
         | Inr (out, nb1) \<Rightarrow> map_sum id ((@) out) (format_text env cs nb1 arg))
      else if c = CHR ''{'' then Inl ValueError
      else if plain_field_char c then format_in_field env start cs (field @ [c]) nb arg
      else str_format_beyond env start nb arg)"


definition py_format :: "deps \<Rightarrow> string \<Rightarrow> string \<Rightarrow> error + string" where
  "py_format env template arg = format_text env template Unnumbered arg"

text \<open>\<^verbatim>\<open>item[ID].format(format_string)\<close>: only a string has the method.\<close>

definition item_uri :: "deps \<Rightarrow> pyval \<Rightarrow> string \<Rightarrow> error + pyval" where
  "item_uri env item format_string =
     (case py_getitem item ID of
        Inl e \<Rightarrow> Inl e
      | Inr (PStr template) \<Rightarrow> map_sum id PStr (py_format env template format_string)
      | Inr _ \<Rightarrow> Inl AttributeError)"

text \<open>The reference set and the instance label \<^verbatim>\<open>smallscan\<close> selects for a category.\<close>

definition smallscan_refs :: "gateway \<Rightarrow> string \<Rightarrow> error + pyval \<times> string" where
  "smallscan_refs g type =
     (if type = HC then
        (case py_get (self_db g) HEATING_CIRCUITS of
           Inl e \<Rightarrow> Inl e
         | Inr section \<Rightarrow>
             (case py_get section REFS of Inl e \<Rightarrow> Inl e | Inr refs \<Rightarrow> Inr (refs, ''hc1'')))
      else if type = DHW then
        (case py_get (self_db g) DHW_CIRCUITS of
           Inl e \<Rightarrow> Inl e
         | Inr section \<Rightarrow>
             (case py_get section REFS of Inl e \<Rightarrow> Inl e | Inr refs \<Rightarrow> Inr (refs, ''dhw1'')))
      else
        (case py_get (self_db g) SENSORS of Inl e \<Rightarrow> Inl e | Inr refs \<Rightarrow> Inr (refs, [])))"

fun smallscan_loop ::
  "deps \<Rightarrow> string \<Rightarrow> pyval list \<Rightarrow> pyval list \<Rightarrow> transport \<Rightarrow> (error + pyval list) \<times> transport" where
  "smallscan_loop env format_string [] rawlist t = (Inr rawlist, t)"
| "smallscan_loop env format_string (item # rest) rawlist t =
     (case item_uri env item format_string of
        Inl e \<Rightarrow> (Inl e, t)
      | Inr uri \<Rightarrow>
          (case deep_into env uri t of
             (Inl e, t1) \<Rightarrow> (Inl e, t1)
           | (Inr r, t1) \<Rightarrow> smallscan_loop env format_string rest (rawlist @ [r]) t1))"

definition smallscan ::
  "deps \<Rightarrow> string \<Rightarrow> gateway \<times> transport \<Rightarrow> (error + pyval list) \<times> gateway \<times> transport" where
  "smallscan env type s =
     (case s of (g, t) \<Rightarrow>
      case smallscan_refs g type of
        Inl e \<Rightarrow> (Inl e, g, t)
      | Inr (refs, format_string) \<Rightarrow>
          (case py_values refs of
             Inl e \<Rightarrow> (Inl e, g, t)
           | Inr items \<Rightarrow>
               (case smallscan_loop env format_string items [] t of (r, t1) \<Rightarrow> (r, g, t1))))"





section \<open>Connection check\<close>

text \<open>The path \<^verbatim>\<open>self._db[GATEWAY][UUID]\<close>.\<close>

definition uuid_path :: "gateway \<Rightarrow> error + pyval" where
  "uuid_path g =
     (case py_getitem (self_db g) GATEWAY of Inl e \<Rightarrow> Inl e | Inr gw \<Rightarrow> py_getitem gw UUID)"

text \<open>The body of the \<^verbatim>\<open>try\<close> block of \<^verbatim>\<open>check_connection\<close>.\<close>

definition check_connection_try ::
  "deps \<Rightarrow> gateway \<times> transport \<Rightarrow> (error + unit) \<times> gateway \<times> transport" where
  "check_connection_try env s =
     (case s of (g, t) \<Rightarrow>
      if \<not> truthy (self_initialized g) then initialize env (g, t)
      else
        (case uuid_path g of
           Inl e \<Rightarrow> (Inl e, g, t)
         | Inr path \<Rightarrow>
             (case connector_get path t of
                (Inl e, t1) \<Rightarrow> (Inl e, g, t1)
              | (Inr response, t1) \<Rightarrow>
                  (case py_in VALUE response of
                     Inl e \<Rightarrow> (Inl e, g, t1)
                   | Inr False \<Rightarrow> (Inr (), g, t1)
                   | Inr True \<Rightarrow>
                       (case py_getitem response VALUE of
                          Inl e \<Rightarrow> (Inl e, g, t1)
                        | Inr v \<Rightarrow>
                            (case info_setitem g UUID v of
                               Inl e \<Rightarrow> (Inl e, g, t1)
                             | Inr g1 \<Rightarrow> (Inr (), g1, t1)))))))"

text \<open>\<^verbatim>\<open>check_connection\<close>: \<^verbatim>\<open>except DeviceException\<close> only logs; any other error leaves.\<close>

definition check_connection ::
  "deps \<Rightarrow> gateway \<times> transport \<Rightarrow> (error + pyval) \<times> gateway \<times> transport" where
  "check_connection env s =
     (case check_connection_try env s of
        (Inl e, g1, t1) \<Rightarrow>
          if e = DeviceException then (get_info g1 UUID, g1, t1) else (Inl e, g1, t1)
      | (Inr _, g1, t1) \<Rightarrow> (get_info g1 UUID, g1, t1))"

section \<open>Tree prober\<close>

text \<open>
  Modelled from the spec: \<^verbatim>\<open>helper.deep_into\<close> is not among the sources. The spec's
  deep scan fetches the root path; if the result is a list of child-path descriptors it
  scans each child, in the order given, and assembles the sequence of their results; a
  terminal value is returned as it is. A child's path is the reference id of its
  descriptor. The depth is bounded by the guard the spec recommends; a communication error
  ends the scan.
\<close>

fun deep_scan :: "nat \<Rightarrow> pyval \<Rightarrow> transport \<Rightarrow> (error + pyval) \<times> transport"
  and deep_scan_children :: "nat \<Rightarrow> pyval list \<Rightarrow> transport \<Rightarrow> (error + pyval list) \<times> transport" where
  "deep_scan 0 path t = (Inl RecursionError, t)"
| "deep_scan (Suc depth) path t =
     (case connector_get path t of
        (Inl e, t1) \<Rightarrow> (Inl e, t1)
      | (Inr (PList children), t1) \<Rightarrow>
          (case deep_scan_children depth children t1 of
             (Inl e, t2) \<Rightarrow> (Inl e, t2)
           | (Inr rs, t2) \<Rightarrow> (Inr (PList rs), t2))
      | (Inr v, t1) \<Rightarrow> (Inr v, t1))"
| "deep_scan_children depth [] t = (Inr [], t)"
| "deep_scan_children depth (child # rest) t =
     (case py_getitem child ID of
        Inl e \<Rightarrow> (Inl e, t)
      | Inr path \<Rightarrow>
          (case deep_scan depth path t of
             (Inl e, t1) \<Rightarrow> (Inl e, t1)
           | (Inr r, t1) \<Rightarrow>
               (case deep_scan_children depth rest t1 of
                  (Inl e, t2) \<Rightarrow> (Inl e, t2)
                | (Inr rs, t2) \<Rightarrow> (Inr (r # rs), t2))))"

section \<open>An example device family\<close>

text \<open>
  A small device family and device on which the operations are run: the info section is
  read field by field (a field that cannot be read is skipped), the model descriptor is
  fixed, the firmware schema exists for one firmware version, a circuit category is
  discovered by one fetch of its root, and the tree prober is the deep scan of depth 8.
  The path templates of its schemas have no replacement field other than \<^verbatim>\<open>{}\<close>, so
  the value given here to \<open>str_format_beyond\<close> is never taken; \<open>sys_maxsize\<close> is that
  of a 64-bit build.
\<close>

definition example_fetch_info ::
  "string \<Rightarrow> pyval \<Rightarrow> gateway \<times> transport \<Rightarrow> (error + unit) \<times> gateway \<times> transport" where
  "example_fetch_info name section s =
     (case s of (g, t) \<Rightarrow>
      case py_get section name of
        Inl e \<Rightarrow> (Inl e, g, t)
      | Inr uri \<Rightarrow>
          (case connector_get uri t of
             (Inl e, t1) \<Rightarrow> (Inr (), g, t1)
           | (Inr response, t1) \<Rightarrow>
               (case py_getitem response VALUE of
                  Inl e \<Rightarrow> (Inr (), g, t1)
                | Inr v \<Rightarrow>
                    (case info_setitem g name v of
                       Inl e \<Rightarrow> (Inl e, g, t1)
                     | Inr g1 \<Rightarrow> (Inr (), g1, t1)))))"

definition example_update_info ::
  "pyval \<Rightarrow> gateway \<times> transport \<Rightarrow> (error + unit) \<times> gateway \<times> transport" where
  "example_update_info section s =
     (case example_fetch_info FIRMWARE_VERSION section s of
        (Inl e, s1) \<Rightarrow> (Inl e, s1)
      | (Inr _, s1) \<Rightarrow> example_fetch_info UUID section s1)"

definition example_get_device_model ::
  "pyval dict \<Rightarrow> gateway \<times> transport \<Rightarrow> (error + pyval dict option) \<times> gateway \<times> transport" where
  "example_get_device_model db s =
     (case s of (g, t) \<Rightarrow>
      (Inr (Some [(VALUE, PStr ''CT100''), (NAME, PStr ''Easycontrol''),
                  (TYPE_key, PStr ''EASYCONTROL'')]),
       g\<lparr>self_bus_type := PStr ''EMS''\<rparr>, t))"

definition example_base_db :: "pyval dict" where
  "example_base_db =
     [(GATEWAY, PDict [(UUID, PStr ''/gateway/uuid''),
                       (FIRMWARE_VERSION, PStr ''/gateway/versionFirmware'')]),
      (MODELS, PDict [(''CT100'', PStr ''EASYCONTROL'')]),
      (SENSORS, PDict [(''outdoor_t1'', PDict [(ID, PStr ''/system/sensors/outdoor_t1'')])])]"

definition example_firmware_db :: "pyval dict" where
  "example_firmware_db =
     [(GATEWAY, PDict [(UUID, PStr ''/gateway/uuid''), (DATE, PStr ''/gateway/DateTime'')]),
      (HEATING_CIRCUITS,
         PDict [(REFS, PDict [(''status'', PDict [(ID, PStr ''/heatingCircuits/{}'')])])]),
      (MODELS, PDict [(''CT100'', PStr ''EASYCONTROL_V2'')])]"

definition example_Circuits_initialize ::
  "string \<Rightarrow> pyval \<Rightarrow> pyval \<Rightarrow> pyval \<Rightarrow> transport \<Rightarrow> (error + unit) \<times> entity list \<times> transport" where
  "example_Circuits_initialize circ_type bus dtype db t =
     (case connector_get
             (PStr (if circ_type = HC then ''/heatingCircuits''
                    else if circ_type = DHW then ''/dhwCircuits'' else ''/solarCircuits'')) t of
        (Inl e, t1) \<Rightarrow> (Inl e, [], t1)
      | (Inr (PList children), t1) \<Rightarrow>
          (Inr (), concat (map (\<lambda>c. case py_get c ID of Inr (PStr p) \<Rightarrow> [p] | _ \<Rightarrow> []) children), t1)
      | (Inr _, t1) \<Rightarrow> (Inr (), [], t1))"

definition example_env :: deps where
  "example_env =
     \<lparr> device_type = PStr ''IVT'',
       update_info = example_update_info,
       get_device_model = example_get_device_model,
       get_initial_db = (\<lambda>_. example_base_db),
       get_db_of_firmware =
         (\<lambda>ty fw. if fw = PStr ''04.08.02'' then Some example_firmware_db else None),
       get_custom_db = (\<lambda>fw extra. case extra of PDict d \<Rightarrow> d | _ \<Rightarrow> []),
       Circuits_initialize = example_Circuits_initialize,
       Sensors_new = (\<lambda>chosen schema. case chosen of PDict d \<Rightarrow> map fst d | _ \<Rightarrow> []),
       deep_into = deep_scan 8,
       CIRCUIT_TYPES = [DHW, HC, SC],
       ROOT_PATHS = [PStr ''/gateway'', PStr ''/heatingCircuits''],
       str_format_beyond = (\<lambda>rest nb arg. Inl ValueError),
       sys_maxsize = 9223372036854775807 \<rparr>"

text \<open>The device answers five paths, the same way each time, and fails on every other.\<close>

definition example_reply :: "pyval list \<Rightarrow> pyval \<Rightarrow> pyval option" where
  "example_reply history path =
     (if path = PStr ''/gateway/uuid'' then
        Some (PDict [(ID, PStr ''/gateway/uuid''), (VALUE, PStr ''101506113'')])
      else if path = PStr ''/gateway/versionFirmware'' then
        Some (PDict [(ID, PStr ''/gateway/versionFirmware''), (VALUE, PStr ''04.08.02'')])
      else if path = PStr ''/heatingCircuits'' then
        Some (PList [PDict [(ID, PStr ''/heatingCircuits/hc1'')]])
      else if path = PStr ''/heatingCircuits/hc1'' then
        Some (PList [PDict [(ID, PStr ''/heatingCircuits/hc1/roomtemperature'')]])
      else if path = PStr ''/heatingCircuits/hc1/roomtemperature'' then
        Some (PDict [(ID, PStr ''/heatingCircuits/hc1/roomtemperature''), (VALUE, PInt 21)])
      else None)"

definition example_transport :: transport where
  "example_transport = \<lparr> reply = example_reply, fetched = [] \<rparr>"

text \<open>A device that answers every path with a terminal value.\<close>

definition terminal_transport :: transport where
  "terminal_transport = \<lparr> reply = (\<lambda>history path. Some (PDict [(VALUE, PInt 21)])), fetched = [] \<rparr>"

text \<open>A device that answers every path with a bare number.\<close>

definition bare_transport :: transport where
  "bare_transport = \<lparr> reply = (\<lambda>history path. Some (PInt 21)), fetched = [] \<rparr>"

text \<open>A device that cannot be reached.\<close>

definition unreachable_transport :: transport where
  "unreachable_transport = \<lparr> reply = (\<lambda>history path. None), fetched = [] \<rparr>"

text \<open>The gateway after \<^verbatim>\<open>initialize()\<close> on the example device.\<close>

definition example_gateway :: gateway where
  "example_gateway =
     fst (snd (initialize example_env (BaseGateway ''192.168.0.10'', example_transport)))"

section \<open>Properties\<close>

lemmas const_defs =
  GATEWAY_def HC_def DHW_def SC_def SENSORS_def SENSOR_def HEATING_CIRCUITS_def
  DHW_CIRCUITS_def MODELS_def REFS_def ID_def NAME_def TYPE_key_def VALUE_def UUID_def
  DATE_def FIRMWARE_VERSION_def

text \<open>
  C8: in every gateway state in which no firmware version is known (the field is
  \<^verbatim>\<open>None\<close> or empty), \<^verbatim>\<open>custom_initialize\<close> changes nothing: every field,
  the bound schema and the initialized flag included, is as before.
\<close>

theorem custom_initialize_without_firmware:
  "\<not> truthy (self_firmware_version g) \<Longrightarrow> custom_initialize env extra_db g = g"
  by (simp add: custom_initialize_def)

theorem custom_initialize_without_firmware_witness:
  "\<not> truthy (self_firmware_version (BaseGateway ''192.168.0.10'')) \<and>
   custom_initialize example_env (PDict example_firmware_db) (BaseGateway ''192.168.0.10'') =
     BaseGateway ''192.168.0.10''"
proof -
  have unknown: "\<not> truthy (self_firmware_version (BaseGateway ''192.168.0.10''))"
    by (simp add: BaseGateway_def)
  from custom_initialize_without_firmware [OF unknown] unknown show ?thesis
    by simp
qed

subsection \<open>Connection check\<close>

lemma check_connection_try_frame:
  assumes "truthy (self_initialized g)"
      and "check_connection_try env (g, t) = (r, g', t')"
  shows "g' = g \<or> (\<exists>path response v. uuid_path g = Inr path
            \<and> reply t (fetched t) path = Some response \<and> py_in VALUE response = Inr True
            \<and> py_getitem response VALUE = Inr v \<and> info_setitem g UUID v = Inr g' \<and> r = Inr ())"
  using assms
  by (auto simp: check_connection_try_def connector_get_def
           split: sum.splits option.splits bool.splits prod.splits)

lemma check_connection_try_log:
  assumes "truthy (self_initialized g)"
      and "check_connection_try env (g, t) = (r, g', t')"
  shows "reply t' = reply t \<and>
         (case uuid_path g of
            Inl e \<Rightarrow> fetched t' = fetched t \<and> r = Inl e \<and> g' = g
          | Inr path \<Rightarrow>
              fetched t' = fetched t @ [path] \<and>
              (reply t (fetched t) path = None \<longrightarrow> r = Inl DeviceException \<and> g' = g))"
  using assms
  by (auto simp: check_connection_try_def connector_get_def
           split: sum.splits option.splits bool.splits prod.splits)

lemma get_info_not_device_error: "get_info g key \<noteq> Inl DeviceException"
  by (simp add: get_info_def split: option.splits slot.splits)

lemma check_connection_cases:
  assumes "check_connection env s = (r, g', t')"
  shows "\<exists>r0. check_connection_try env s = (r0, g', t') \<and>
           (if r0 = Inl DeviceException \<or> (\<exists>u. r0 = Inr u) then r = get_info g' UUID
            else \<exists>e. r0 = Inl e \<and> r = Inl e \<and> e \<noteq> DeviceException)"
  using assms
  by (auto simp: check_connection_def split: prod.splits sum.splits if_splits)

lemma py_in_not_device_error: "py_in k x \<noteq> Inl DeviceException"
  by (cases x) simp_all

lemma py_getitem_not_device_error: "py_getitem x k \<noteq> Inl DeviceException"
  by (cases x) (simp_all split: option.splits)

lemma uuid_path_not_device_error: "uuid_path g \<noteq> Inl DeviceException"
  using py_getitem_not_device_error
  by (auto simp: uuid_path_def split: sum.splits)

lemma info_setitem_not_device_error: "info_setitem g key v \<noteq> Inl DeviceException"
  by (simp add: info_setitem_def split: option.splits slot.splits)

lemma get_info_after_setitem:
  assumes "info_setitem g key v = Inr g1"
  shows "get_info g1 key = Inr v"
  using assms
  by (auto simp: info_setitem_def get_info_def dict_get_def dict_setitem_def update_conv'
           split: option.splits slot.splits)

lemma check_connection_initialized:
  assumes "truthy (self_initialized g)"
  shows "check_connection env (g, t) =
           (case uuid_path g of
              Inl e \<Rightarrow> (Inl e, g, t)
            | Inr path \<Rightarrow>
                (case reply t (fetched t) path of
                   None \<Rightarrow> (get_info g UUID, g, t\<lparr>fetched := fetched t @ [path]\<rparr>)
                 | Some response \<Rightarrow>
                     (case py_in VALUE response of
                        Inl e \<Rightarrow> (Inl e, g, t\<lparr>fetched := fetched t @ [path]\<rparr>)
                      | Inr present \<Rightarrow>
                          if present then
                            (case py_getitem response VALUE of
                               Inl e \<Rightarrow> (Inl e, g, t\<lparr>fetched := fetched t @ [path]\<rparr>)
                             | Inr v \<Rightarrow>
                                 (case info_setitem g UUID v of
                                    Inl e \<Rightarrow> (Inl e, g, t\<lparr>fetched := fetched t @ [path]\<rparr>)
                                  | Inr g1 \<Rightarrow> (Inr v, g1, t\<lparr>fetched := fetched t @ [path]\<rparr>)))
                          else (get_info g UUID, g, t\<lparr>fetched := fetched t @ [path]\<rparr>))))"
  using assms uuid_path_not_device_error [of g]
proof (cases "uuid_path g")
  case (Inl e)
  with uuid_path_not_device_error [of g] assms show ?thesis
    by (simp add: check_connection_def check_connection_try_def)
next
  case path: (Inr path)
  show ?thesis
  proof (cases "reply t (fetched t) path")
    case None
    with path assms show ?thesis
      by (simp add: check_connection_def check_connection_try_def connector_get_def)
  next
    case response: (Some response)
    show ?thesis
    proof (cases "py_in VALUE response")
      case (Inl e)
      with py_in_not_device_error [of VALUE response] path response assms show ?thesis
        by (simp add: check_connection_def check_connection_try_def connector_get_def)
    next
      case present: (Inr present)
      show ?thesis
      proof (cases present)
        case False
        with present path response assms show ?thesis
          by (simp add: check_connection_def check_connection_try_def connector_get_def)
      next
        case True
        show ?thesis
        proof (cases "py_getitem response VALUE")
          case (Inl e)
          with py_getitem_not_device_error [of response VALUE] True present path response assms
          show ?thesis
            by (simp add: check_connection_def check_connection_try_def connector_get_def)
        next
          case v: (Inr v)
          show ?thesis
          proof (cases "info_setitem g UUID v")
            case (Inl e)
            with info_setitem_not_device_error [of g UUID v] v True present path response assms
            show ?thesis
              by (simp add: check_connection_def check_connection_try_def connector_get_def)
          next
            case (Inr g1)
            with get_info_after_setitem [OF Inr] v True present path response assms
            show ?thesis
              by (simp add: check_connection_def check_connection_try_def connector_get_def)
          qed
        qed
      qed
    qed
  qed
qed

text \<open>
  C2 as stated does not hold: a response in which \<^verbatim>\<open>VALUE\<close> cannot be looked for is
  not a device-communication error, and \<^verbatim>\<open>check_connection\<close> then raises instead of
  returning the cached UUID. The gateway is initialized and has a UUID cached, the device
  answers the UUID path with a bare number, and the call ends with a \<^verbatim>\<open>TypeError\<close>.
\<close>

theorem check_connection_always_returns_uuid_counterexample:
  "truthy (self_initialized example_gateway) \<and>
   get_info example_gateway UUID = Inr (PStr ''101506113'') \<and>
   uuid_path example_gateway = Inr (PStr ''/gateway/uuid'') \<and>
   reply bare_transport (fetched bare_transport) (PStr ''/gateway/uuid'') = Some (PInt 21) \<and>
   fst (check_connection example_env (example_gateway, bare_transport)) = Inl TypeError"
  by code_simp

text \<open>
  C2 (as amended): \<^verbatim>\<open>check_connection\<close> on a gateway that is not initialized does to
  the gateway and the transport what \<^verbatim>\<open>initialize\<close> does; a \<^verbatim>\<open>DeviceException\<close> of
  \<^verbatim>\<open>initialize\<close> is swallowed and the call returns the UUID cached in the state it ends
  in, as it does when \<^verbatim>\<open>initialize\<close> ends normally, while any other error of
  \<^verbatim>\<open>initialize\<close> leaves the call. On an initialized gateway it makes exactly one fetch,
  of the UUID path of the bound schema, and none when the schema has no such path, in which
  case the lookup error leaves the call. When that fetch fails, the gateway state is
  unchanged and the call returns the UUID cached before. When the response holds
  \<^verbatim>\<open>VALUE\<close>, that value is cached and returned; when \<^verbatim>\<open>VALUE\<close> is not found in it,
  the state is unchanged and the UUID cached before is returned; when the response is a
  value in which \<^verbatim>\<open>VALUE\<close> cannot be looked for, the error leaves the call and the
  gateway state is unchanged. The call never ends with a \<^verbatim>\<open>DeviceException\<close>, and the
  cached UUID is the \<^verbatim>\<open>UUID\<close> entry of the gateway information, \<^verbatim>\<open>None\<close> when there
  is none.
\<close>

theorem check_connection_returns_cached_uuid:
  assumes "check_connection env (g, t) = (r, g', t')"
  shows "(\<not> truthy (self_initialized g) \<longrightarrow>
            (\<exists>r0. initialize env (g, t) = (r0, g', t') \<and>
               r = (case r0 of
                      Inl e \<Rightarrow> if e = DeviceException then get_info g' UUID else Inl e
                    | Inr u \<Rightarrow> get_info g' UUID))) \<and>
         (truthy (self_initialized g) \<longrightarrow>
            (case uuid_path g of
               Inl e \<Rightarrow> r = Inl e \<and> g' = g \<and> t' = t
             | Inr path \<Rightarrow>
                 t' = t\<lparr>fetched := fetched t @ [path]\<rparr> \<and>
                 (case reply t (fetched t) path of
                    None \<Rightarrow> r = get_info g UUID \<and> g' = g
                  | Some response \<Rightarrow>
                      (case py_in VALUE response of
                         Inl e \<Rightarrow> r = Inl e \<and> g' = g
                       | Inr present \<Rightarrow>
                           if present then
                             (case py_getitem response VALUE of
                                Inl e \<Rightarrow> r = Inl e \<and> g' = g
                              | Inr v \<Rightarrow>
                                  (case info_setitem g UUID v of
                                     Inl e \<Rightarrow> r = Inl e \<and> g' = g
                                   | Inr g1 \<Rightarrow>
                                       r = Inr v \<and> g' = g1 \<and> get_info g' UUID = Inr v))
                           else r = get_info g UUID \<and> g' = g)))) \<and>
         r \<noteq> Inl DeviceException \<and>
         (\<forall>d. dict_get (self_data g') GATEWAY = Some (Info d) \<longrightarrow>
            get_info g' UUID = Inr (case dict_get d UUID of None \<Rightarrow> PNone | Some v \<Rightarrow> v))"
proof -
  have uninitialized:
    "\<exists>r0. initialize env (g, t) = (r0, g', t') \<and>
       r = (case r0 of
              Inl e \<Rightarrow> if e = DeviceException then get_info g' UUID else Inl e
            | Inr u \<Rightarrow> get_info g' UUID)"
    if "\<not> truthy (self_initialized g)"
    using that assms
    by (auto simp: check_connection_def check_connection_try_def
             split: prod.splits sum.splits if_splits)
  have initialized:
    "(case uuid_path g of
               Inl e \<Rightarrow> r = Inl e \<and> g' = g \<and> t' = t
             | Inr path \<Rightarrow>
                 t' = t\<lparr>fetched := fetched t @ [path]\<rparr> \<and>
                 (case reply t (fetched t) path of
                    None \<Rightarrow> r = get_info g UUID \<and> g' = g
                  | Some response \<Rightarrow>
                      (case py_in VALUE response of
                         Inl e \<Rightarrow> r = Inl e \<and> g' = g
                       | Inr present \<Rightarrow>
                           if present then
                             (case py_getitem response VALUE of
                                Inl e \<Rightarrow> r = Inl e \<and> g' = g
                              | Inr v \<Rightarrow>
                                  (case info_setitem g UUID v of
                                     Inl e \<Rightarrow> r = Inl e \<and> g' = g
                                   | Inr g1 \<Rightarrow>
                                       r = Inr v \<and> g' = g1 \<and> get_info g' UUID = Inr v))
                           else r = get_info g UUID \<and> g' = g)))"
    if "truthy (self_initialized g)"
  proof -
    note run = assms [unfolded check_connection_initialized [OF that]]
    show ?thesis
    proof (cases "uuid_path g")
      case (Inl e)
      from run have res: "r = Inl e" "g' = g" "t' = t"
        by (auto simp: Inl)
      show ?thesis
        by (simp add: Inl res)
    next
      case path: (Inr path)
      show ?thesis
      proof (cases "reply t (fetched t) path")
        case None
        from run have res: "r = get_info g UUID" "g' = g" "t' = t\<lparr>fetched := fetched t @ [path]\<rparr>"
          by (auto simp: path None)
        show ?thesis
          by (simp add: path None res)
      next
        case response: (Some response)
        show ?thesis
        proof (cases "py_in VALUE response")
          case (Inl e)
          from run have res: "r = Inl e" "g' = g" "t' = t\<lparr>fetched := fetched t @ [path]\<rparr>"
            by (auto simp: path response Inl)
          show ?thesis
            by (simp add: path response Inl res)
        next
          case present: (Inr present)
          show ?thesis
          proof (cases present)
            case False
            from run have res: "r = get_info g UUID" "g' = g" "t' = t\<lparr>fetched := fetched t @ [path]\<rparr>"
              by (auto simp: path response present False)
            show ?thesis
              by (simp add: path response present False res)
          next
            case True
            show ?thesis
            proof (cases "py_getitem response VALUE")
              case (Inl e)
              from run have res: "r = Inl e" "g' = g" "t' = t\<lparr>fetched := fetched t @ [path]\<rparr>"
                by (auto simp: path response present True Inl)
              show ?thesis
                by (simp add: path response present True Inl res)
            next
              case v: (Inr v)
              show ?thesis
              proof (cases "info_setitem g UUID v")
                case (Inl e)
                from run have res: "r = Inl e" "g' = g" "t' = t\<lparr>fetched := fetched t @ [path]\<rparr>"
                  by (auto simp: path response present True v Inl)
                show ?thesis
                  by (simp add: path response present True v Inl res)
              next
                case (Inr g1)
                from run have res: "r = Inr v" "g' = g1" "t' = t\<lparr>fetched := fetched t @ [path]\<rparr>"
                  by (auto simp: path response present True v Inr)
                show ?thesis
                  by (simp add: path response present True v Inr res get_info_after_setitem [OF Inr])
              qed
            qed
          qed
        qed
      qed
    qed
  qed
  from check_connection_cases [OF assms] obtain r0 :: "error + unit" where
    "if r0 = Inl DeviceException \<or> (\<exists>u. r0 = Inr u) then r = get_info g' UUID
     else \<exists>e. r0 = Inl e \<and> r = Inl e \<and> e \<noteq> DeviceException"
    by blast
  then have quiet: "r \<noteq> Inl DeviceException"
    using get_info_not_device_error [of g' UUID] by (auto split: if_splits)
  have cached: "get_info g' UUID = Inr (case dict_get d UUID of None \<Rightarrow> PNone | Some v \<Rightarrow> v)"
    if "dict_get (self_data g') GATEWAY = Some (Info d)" for d
    using that by (simp add: get_info_def)
  from uninitialized initialized quiet cached show ?thesis
    by blast
qed

theorem check_connection_returns_cached_uuid_witness:
  "\<not> truthy (self_initialized (BaseGateway ''192.168.0.10'')) \<and>
   fst (check_connection example_env (BaseGateway ''192.168.0.10'', example_transport)) =
     Inr (PStr ''101506113'') \<and>
   fst (snd (check_connection example_env (BaseGateway ''192.168.0.10'', example_transport))) =
     example_gateway \<and>
   truthy (self_initialized example_gateway) \<and>
   uuid_path example_gateway = Inr (PStr ''/gateway/uuid'') \<and>
   reply unreachable_transport (fetched unreachable_transport) (PStr ''/gateway/uuid'') = None \<and>
   fst (check_connection example_env (example_gateway, unreachable_transport)) =
     Inr (PStr ''101506113'') \<and>
   fst (snd (check_connection example_env (example_gateway, unreachable_transport))) =
     example_gateway \<and>
   fetched (snd (snd (check_connection example_env (example_gateway, unreachable_transport)))) =
     [PStr ''/gateway/uuid''] \<and>
   fst (check_connection example_env (example_gateway, terminal_transport)) = Inr (PInt 21) \<and>
   get_info (fst (snd (check_connection example_env (example_gateway, terminal_transport)))) UUID =
     Inr (PInt 21) \<and>
   fetched (snd (snd (check_connection example_env (example_gateway, terminal_transport)))) =
     [PStr ''/gateway/uuid'']"
proof -
  let ?fresh = "BaseGateway ''192.168.0.10''"
  let ?first = "check_connection example_env (?fresh, example_transport)"
  let ?second = "check_connection example_env (example_gateway, unreachable_transport)"
  let ?third = "check_connection example_env (example_gateway, terminal_transport)"
  let ?init = "initialize example_env (?fresh, example_transport)"
  have fresh: "\<not> truthy (self_initialized ?fresh)"
    by (simp add: BaseGateway_def)
  have run1: "?first = (fst ?first, fst (snd ?first), snd (snd ?first))"
    by simp
  have init_ok: "fst ?init = Inr ()"
    by code_simp
  have init_state: "fst (snd ?init) = example_gateway"
    by (simp add: example_gateway_def)
  have cached: "get_info example_gateway UUID = Inr (PStr ''101506113'')"
    by code_simp
  have ready: "truthy (self_initialized example_gateway)"
    by code_simp
  have path: "uuid_path example_gateway = Inr (PStr ''/gateway/uuid'')"
    by code_simp
  have silent:
    "reply unreachable_transport (fetched unreachable_transport) (PStr ''/gateway/uuid'') = None"
    by (simp add: unreachable_transport_def)
  have log: "fetched unreachable_transport = []"
    by (simp add: unreachable_transport_def)
  have run2: "?second = (fst ?second, fst (snd ?second), snd (snd ?second))"
    by simp
  have answer:
    "reply terminal_transport (fetched terminal_transport) (PStr ''/gateway/uuid'') =
       Some (PDict [(VALUE, PInt 21)])"
    by (simp add: terminal_transport_def)
  have log3: "fetched terminal_transport = []"
    by (simp add: terminal_transport_def)
  have present: "py_in VALUE (PDict [(VALUE, PInt 21)]) = Inr True"
    by code_simp
  have val: "py_getitem (PDict [(VALUE, PInt 21)]) VALUE = Inr (PInt 21)"
    by code_simp
  obtain g1 where stored: "info_setitem example_gateway UUID (PInt 21) = Inr g1"
    using cached by (auto simp: info_setitem_def get_info_def split: option.splits slot.splits)
  have run3: "?third = (fst ?third, fst (snd ?third), snd (snd ?third))"
    by simp
  from check_connection_returns_cached_uuid [OF run1] fresh
  obtain r0 where "?init = (r0, fst (snd ?first), snd (snd ?first))"
    and "fst ?first = (case r0 of
                      Inl e \<Rightarrow> if e = DeviceException then get_info (fst (snd ?first)) UUID else Inl e
                    | Inr u \<Rightarrow> get_info (fst (snd ?first)) UUID)"
    by blast
  with init_ok init_state cached
  have one: "fst ?first = Inr (PStr ''101506113'') \<and> fst (snd ?first) = example_gateway"
    by simp
  from check_connection_returns_cached_uuid [OF run2] ready path silent cached log
  have two: "fst ?second = Inr (PStr ''101506113'') \<and> fst (snd ?second) = example_gateway \<and>
             fetched (snd (snd ?second)) = [PStr ''/gateway/uuid'']"
    by simp
  from check_connection_returns_cached_uuid [OF run3] ready path answer present val stored log3
  have three: "fst ?third = Inr (PInt 21) \<and> get_info (fst (snd ?third)) UUID = Inr (PInt 21) \<and>
             fetched (snd (snd ?third)) = [PStr ''/gateway/uuid'']"
    by auto
  from one two three fresh ready path silent show ?thesis
    by simp
qed

text \<open>
  C10: on the initialized path of \<^verbatim>\<open>check_connection\<close> the gateway state changes only
  by storing, as the cached UUID, the \<^verbatim>\<open>VALUE\<close> entry of the response. When the schema
  has no UUID path, when the fetch fails, and for every response in which \<^verbatim>\<open>VALUE\<close> is
  not found, the whole gateway state is as before.
\<close>

theorem check_connection_overwrites_uuid_only_on_value:
  assumes "truthy (self_initialized g)"
      and "check_connection env (g, t) = (r, g', t')"
  shows "(\<forall>e. uuid_path g = Inl e \<longrightarrow> g' = g) \<and>
         (\<forall>path. uuid_path g = Inr path \<longrightarrow>
            (case reply t (fetched t) path of
               None \<Rightarrow> g' = g
             | Some response \<Rightarrow> py_in VALUE response \<noteq> Inr True \<longrightarrow> g' = g)) \<and>
         (g' \<noteq> g \<longrightarrow>
            (\<exists>path response v. uuid_path g = Inr path
               \<and> reply t (fetched t) path = Some response
               \<and> py_in VALUE response = Inr True
               \<and> py_getitem response VALUE = Inr v
               \<and> info_setitem g UUID v = Inr g'))"
proof -
  from assms(2) obtain r0 where body: "check_connection_try env (g, t) = (r0, g', t')"
    using check_connection_cases by blast
  from check_connection_try_frame [OF assms(1) body]
  show ?thesis
    by (auto split: option.splits)
qed

theorem check_connection_overwrites_uuid_only_on_value_witness:
  "truthy (self_initialized example_gateway) \<and>
   uuid_path example_gateway = Inr (PStr ''/gateway/uuid'') \<and>
   reply unreachable_transport (fetched unreachable_transport) (PStr ''/gateway/uuid'') = None \<and>
   fst (snd (check_connection example_env (example_gateway, unreachable_transport))) =
     example_gateway"
proof -
  let ?out = "check_connection example_env (example_gateway, unreachable_transport)"
  have ready: "truthy (self_initialized example_gateway)"
    by code_simp
  have path: "uuid_path example_gateway = Inr (PStr ''/gateway/uuid'')"
    by code_simp
  have silent:
    "reply unreachable_transport (fetched unreachable_transport) (PStr ''/gateway/uuid'') = None"
    by (simp add: unreachable_transport_def)
  have run: "?out = (fst ?out, fst (snd ?out), snd (snd ?out))"
    by simp
  from check_connection_overwrites_uuid_only_on_value [OF ready run] path silent
  show ?thesis
    using ready by simp
qed

subsection \<open>Initialization and schema merge\<close>

lemma dict_get_dict_update:
  "distinct (map fst e) \<Longrightarrow>
   dict_get (dict_update d e) k = (case dict_get e k of None \<Rightarrow> dict_get d k | Some v \<Rightarrow> Some v)"
proof (induction e arbitrary: d)
  case Nil
  then show ?case by (simp add: dict_update_def dict_get_def)
next
  case (Cons kv e)
  have step: "dict_update d (kv # e) = dict_update (dict_setitem (fst kv) (snd kv) d) e"
    by (simp add: dict_update_def)
  from Cons.prems have fresh: "map_of e (fst kv) = None" and rest: "distinct (map fst e)"
    by (auto simp: map_of_eq_None_iff)
  show ?case
    unfolding step
    using Cons.IH [OF rest, of "dict_setitem (fst kv) (snd kv) d"] fresh
    by (auto simp: dict_get_def dict_setitem_def update_conv' split: option.splits)
qed

lemma dict_get_merge_db:
  assumes "distinct (map fst initial_db)"
  shows "dict_get (merge_db db initial_db) k =
           (if k = MODELS then dict_get db k
            else case dict_get initial_db k of None \<Rightarrow> dict_get db k | Some v \<Rightarrow> Some v)"
proof -
  have "distinct (map fst (dict_pop MODELS initial_db))"
    using assms by (simp add: dict_pop_def distinct_delete)
  then show ?thesis
    by (simp add: merge_db_def dict_get_dict_update) (simp add: dict_get_def dict_pop_def delete_conv')
qed

text \<open>The steps of \<^verbatim>\<open>initialize\<close>, one after the other.\<close>

lemma initialize_steps:
  assumes "initialize env (g, t) = (r, g', t')"
  obtains
    (info_error) e where "update_info env (case dict_get (get_base_db env) GATEWAY of None \<Rightarrow> PNone | Some v \<Rightarrow> v) (g, t) = (Inl e, g', t')" "r = Inl e"
  | (no_info) u g1 e where "update_info env (case dict_get (get_base_db env) GATEWAY of None \<Rightarrow> PNone | Some v \<Rightarrow> v) (g, t) = (Inr u, g1, t')"
       "info_get g1 FIRMWARE_VERSION = Inl e" "r = Inl e" "g' = g1"
  | (model) u g1 t1 fw r2 g2 where "update_info env (case dict_get (get_base_db env) GATEWAY of None \<Rightarrow> PNone | Some v \<Rightarrow> v) (g, t) = (Inr u, g1, t1)"
       "info_get g1 FIRMWARE_VERSION = Inr fw"
       "get_device_model env (get_base_db env) (g1\<lparr>self_firmware_version := fw\<rparr>, t1) = (r2, g2, t')"
       "case r2 of Inl e \<Rightarrow> r = Inl e \<and> g' = g2
        | Inr dev \<Rightarrow>
           (case dev of None \<Rightarrow> r = Inr () \<and> g' = g2\<lparr>self_device := None\<rparr>
            | Some d \<Rightarrow>
               if d \<noteq> [] \<and> dict_contains d VALUE then
                 (case dict_get d TYPE_key of None \<Rightarrow> r = Inl KeyError \<and> g' = g2\<lparr>self_device := dev\<rparr>
                  | Some ty \<Rightarrow>
                     (case get_db_of_firmware env ty (self_firmware_version g2) of
                        None \<Rightarrow> r = Inr () \<and> g' = g2\<lparr>self_device := dev, self_db := PNone\<rparr>
                      | Some db \<Rightarrow>
                          if db \<noteq> [] then r = Inr () \<and> g' = g2\<lparr>self_device := dev, self_db := PDict (merge_db db (get_base_db env)), self_initialized := PBool True\<rparr>
                          else r = Inr () \<and> g' = g2\<lparr>self_device := dev, self_db := PDict db\<rparr>))
               else r = Inr () \<and> g' = g2\<lparr>self_device := dev\<rparr>)"
proof -
  let ?sec = "case dict_get (get_base_db env) GATEWAY of None \<Rightarrow> PNone | Some v \<Rightarrow> v"
  obtain r1 g1 t1 where u: "update_info env ?sec (g, t) = (r1, g1, t1)"
    by (cases "update_info env ?sec (g, t)") auto
  show thesis
  proof (cases r1)
    case (Inl e)
    with u assms info_error show ?thesis
      by (auto simp: initialize_def Let_def)
  next
    case (Inr u1)
    show ?thesis
    proof (cases "info_get g1 FIRMWARE_VERSION")
      case (Inl e)
      with u Inr assms no_info show ?thesis
        by (auto simp: initialize_def Let_def)
    next
      case fw: (Inr fw)
      obtain r2 g2 t2 where m: "get_device_model env (get_base_db env) (g1\<lparr>self_firmware_version := fw\<rparr>, t1) = (r2, g2, t2)"
        by (cases "get_device_model env (get_base_db env) (g1\<lparr>self_firmware_version := fw\<rparr>, t1)") auto
      have t2: "t2 = t'"
        using u Inr fw m assms
        by (simp add: initialize_def Let_def split: sum.splits option.splits if_splits)
      have "case r2 of Inl e \<Rightarrow> r = Inl e \<and> g' = g2
        | Inr dev \<Rightarrow>
           (case dev of None \<Rightarrow> r = Inr () \<and> g' = g2\<lparr>self_device := None\<rparr>
            | Some d \<Rightarrow>
               if d \<noteq> [] \<and> dict_contains d VALUE then
                 (case dict_get d TYPE_key of None \<Rightarrow> r = Inl KeyError \<and> g' = g2\<lparr>self_device := dev\<rparr>
                  | Some ty \<Rightarrow>
                     (case get_db_of_firmware env ty (self_firmware_version g2) of
                        None \<Rightarrow> r = Inr () \<and> g' = g2\<lparr>self_device := dev, self_db := PNone\<rparr>
                      | Some db \<Rightarrow>
                          if db \<noteq> [] then r = Inr () \<and> g' = g2\<lparr>self_device := dev, self_db := PDict (merge_db db (get_base_db env)), self_initialized := PBool True\<rparr>
                          else r = Inr () \<and> g' = g2\<lparr>self_device := dev, self_db := PDict db\<rparr>))
               else r = Inr () \<and> g' = g2\<lparr>self_device := dev\<rparr>)"
        using u Inr fw m assms
        by (auto simp: initialize_def Let_def split: sum.splits option.splits if_splits)
      with model [OF _ fw] u Inr m t2 show ?thesis
        by simp
    qed
  qed
qed

lemma initialize_binds_merged:
  assumes "initialize env (g, t) = (Inr (), g', t')"
      and "self_device g' = Some d" and "d \<noteq> []" and "dict_contains d VALUE"
      and "dict_get d TYPE_key = Some ty"
      and "get_db_of_firmware env ty (self_firmware_version g') = Some db" and "db \<noteq> []"
  shows "self_db g' = PDict (merge_db db (get_base_db env)) \<and> self_initialized g' = PBool True"
  using assms(1)
proof (cases rule: initialize_steps)
  case (model u g1 t1 fw r2 g2)
  with assms(2-) show ?thesis
    by (auto split: sum.splits option.splits if_splits)
qed simp_all

lemma initialize_marks:
  assumes "\<forall>sec s. self_initialized (fst (snd (update_info env sec s))) = self_initialized (fst s)"
      and "\<forall>db s. self_initialized (fst (snd (get_device_model env db s))) = self_initialized (fst s)"
      and "initialize env (g, t) = (r, g', t')"
      and "self_initialized g' \<noteq> self_initialized g"
  shows "r = Inr () \<and> self_initialized g' = PBool True \<and>
         (\<exists>d ty db. self_device g' = Some d \<and> d \<noteq> [] \<and> dict_contains d VALUE \<and>
            dict_get d TYPE_key = Some ty \<and>
            get_db_of_firmware env ty (self_firmware_version g') = Some db \<and> db \<noteq> [] \<and>
            self_db g' = PDict (merge_db db (get_base_db env)))"
  using assms(3)
proof (cases rule: initialize_steps)
  case (info_error e)
  from assms(1) [rule_format, of _ "(g, t)"] info_error(1) assms(4) show ?thesis
    by (metis fst_conv snd_conv)
next
  case (no_info u g1 e)
  from assms(1) [rule_format, of _ "(g, t)"] no_info(1,4) assms(4) show ?thesis
    by (metis fst_conv snd_conv)
next
  case (model u g1 t1 fw r2 g2)
  from assms(1) [rule_format, of _ "(g, t)"] model(1)
  have f1: "self_initialized g1 = self_initialized g"
    by (metis fst_conv snd_conv)
  from assms(2) [rule_format, of _ "(g1\<lparr>self_firmware_version := fw\<rparr>, t1)"] model(3)
  have f2: "self_initialized g2 = self_initialized g1"
    by (metis fst_conv snd_conv gateway.select_convs(6) gateway.surjective gateway.update_convs(3))
  from model(4) f1 f2 assms(4) show ?thesis
    by (auto split: sum.splits option.splits if_splits)
qed

lemma initialize_model_sees_firmware:
  "initialize env s =
   initialize
     (env\<lparr>get_device_model :=
            \<lambda>db s1. if info_get (fst s1) FIRMWARE_VERSION = Inr (self_firmware_version (fst s1))
                    then get_device_model env db s1 else (Inl RecursionError, s1)\<rparr>) s"
proof -
  have same: "info_get (g1\<lparr>self_firmware_version := fw\<rparr>) k = info_get g1 k" for g1 fw k
    by (simp add: info_get_def)
  show ?thesis
    by (simp add: initialize_def get_base_db_def same Let_def
             split: prod.splits sum.splits option.splits
             cong: option.case_cong sum.case_cong if_cong)
qed


lemma py_getitem_merge_db:
  assumes "distinct (map fst initial_db)"
  shows "py_getitem (PDict (merge_db db initial_db)) k =
           (if k \<noteq> MODELS \<and> dict_contains initial_db k then py_getitem (PDict initial_db) k
            else py_getitem (PDict db) k)"
proof -
  have "dict_contains initial_db k \<longleftrightarrow> dict_get initial_db k \<noteq> None"
    by (simp add: dict_contains_def dict_get_def map_of_eq_None_iff)
  then show ?thesis
    by (auto simp: dict_get_merge_db [OF assms] split: option.splits)
qed

lemma example_update_info_flag:
  "self_initialized (fst (snd (example_update_info sec s))) = self_initialized (fst s)"
proof -
  have one: "self_initialized (fst (snd (example_fetch_info name sec s))) = self_initialized (fst s)"
    for name s
    by (cases s)
       (auto simp: example_fetch_info_def info_setitem_def
             split: sum.splits prod.splits option.splits slot.splits)
  show ?thesis
    by (cases "example_fetch_info FIRMWARE_VERSION sec s")
       (auto simp: example_update_info_def one split: sum.splits dest: arg_cong [where f = "\<lambda>x. self_initialized (fst (snd x))"])
qed

lemma example_get_device_model_flag:
  "self_initialized (fst (snd (example_get_device_model db s))) = self_initialized (fst s)"
  by (cases s) (simp add: example_get_device_model_def)

text \<open>
  C3: \<^verbatim>\<open>initialize\<close> marks the gateway initialized only with a model and a schema.
  When the two methods of the device family leave the flag alone and the call changes the
  flag, then the call ended normally, the flag is \<^verbatim>\<open>True\<close>, the device descriptor
  fetched is non-empty and has a \<^verbatim>\<open>VALUE\<close> entry, a non-empty firmware schema was
  found for the descriptor's type and the firmware version, and the bound schema is that
  schema merged with the base schema. The firmware version is set from the gateway info
  before the model is fetched: \<^verbatim>\<open>initialize\<close> runs \<^verbatim>\<open>get_device_model\<close> only on
  states whose firmware version is the one the gateway info holds, so what the method
  would do on any other state has no influence on the outcome.
\<close>

theorem initialize_marks_only_with_model_and_schema:
  "((\<forall>sec s. self_initialized (fst (snd (update_info env sec s))) = self_initialized (fst s)) \<and>
    (\<forall>db s. self_initialized (fst (snd (get_device_model env db s))) = self_initialized (fst s)) \<and>
    initialize env (g, t) = (r, g', t') \<and>
    self_initialized g' \<noteq> self_initialized g
    \<longrightarrow> r = Inr () \<and> self_initialized g' = PBool True \<and>
        (\<exists>d ty db. self_device g' = Some d \<and> d \<noteq> [] \<and> dict_contains d VALUE \<and>
           dict_get d TYPE_key = Some ty \<and>
           get_db_of_firmware env ty (self_firmware_version g') = Some db \<and> db \<noteq> [] \<and>
           self_db g' = PDict (merge_db db (get_base_db env)))) \<and>
   initialize env s =
     initialize
       (env\<lparr>get_device_model :=
              \<lambda>db s1. if info_get (fst s1) FIRMWARE_VERSION = Inr (self_firmware_version (fst s1))
                      then get_device_model env db s1 else (Inl RecursionError, s1)\<rparr>) s"
  using initialize_marks [of env g t r g' t'] initialize_model_sees_firmware [of env s]
  by blast

theorem initialize_marks_only_with_model_and_schema_witness:
  "(\<forall>sec s. self_initialized (fst (snd (update_info example_env sec s))) = self_initialized (fst s)) \<and>
   (\<forall>db s. self_initialized (fst (snd (get_device_model example_env db s))) =
              self_initialized (fst s)) \<and>
   self_initialized example_gateway \<noteq> self_initialized (BaseGateway ''192.168.0.10'') \<and>
   fst (initialize example_env (BaseGateway ''192.168.0.10'', example_transport)) = Inr () \<and>
   self_initialized example_gateway = PBool True \<and>
   (\<exists>d ty db. self_device example_gateway = Some d \<and> d \<noteq> [] \<and> dict_contains d VALUE \<and>
      dict_get d TYPE_key = Some ty \<and>
      get_db_of_firmware example_env ty (self_firmware_version example_gateway) = Some db \<and>
      db \<noteq> [] \<and> self_db example_gateway = PDict (merge_db db (get_base_db example_env)))"
proof -
  let ?fresh = "BaseGateway ''192.168.0.10''"
  let ?out = "initialize example_env (?fresh, example_transport)"
  have info: "\<forall>sec s. self_initialized (fst (snd (update_info example_env sec s))) =
                self_initialized (fst s)"
    by (simp add: example_env_def example_update_info_flag)
  have model: "\<forall>db s. self_initialized (fst (snd (get_device_model example_env db s))) =
                 self_initialized (fst s)"
    by (simp add: example_env_def example_get_device_model_flag)
  have run: "?out = (fst ?out, example_gateway, snd (snd ?out))"
    by (simp add: example_gateway_def)
  have marked: "self_initialized example_gateway \<noteq> self_initialized ?fresh"
    by code_simp
  from initialize_marks_only_with_model_and_schema
         [of example_env ?fresh example_transport "fst ?out" example_gateway "snd (snd ?out)"]
       info model run marked
  show ?thesis
    by blast
qed

text \<open>
  C6 (as amended): in the schema that \<^verbatim>\<open>initialize\<close> or \<^verbatim>\<open>custom_initialize\<close>
  binds, every section of the base schema other than \<^verbatim>\<open>MODELS\<close> has the base
  schema's entry, also when the firmware-specific (or custom) schema has a section of that
  name; the firmware-specific entry is kept for \<^verbatim>\<open>MODELS\<close> and for the sections the
  base schema does not have. (The keys of a dictionary are distinct.)
\<close>

theorem merged_schema_takes_base_entries:
  "(distinct (map fst (get_base_db env)) \<and>
    initialize env (g, t) = (Inr (), g', t') \<and>
    self_device g' = Some d \<and> d \<noteq> [] \<and> dict_contains d VALUE \<and>
    dict_get d TYPE_key = Some ty \<and>
    get_db_of_firmware env ty (self_firmware_version g') = Some db \<and> db \<noteq> []
    \<longrightarrow> (\<forall>k. py_getitem (self_db g') k =
              (if k \<noteq> MODELS \<and> dict_contains (get_base_db env) k
               then py_getitem (PDict (get_base_db env)) k
               else py_getitem (PDict db) k))) \<and>
   (distinct (map fst (get_initial_db env None)) \<and> truthy (self_firmware_version g)
    \<longrightarrow> (\<forall>k. py_getitem (self_db (custom_initialize env extra_db g)) k =
              (if k \<noteq> MODELS \<and> dict_contains (get_initial_db env None) k
               then py_getitem (PDict (get_initial_db env None)) k
               else py_getitem (PDict (get_custom_db env (self_firmware_version g) extra_db)) k)))"
proof (intro conjI impI allI)
  fix k
  assume a: "distinct (map fst (get_base_db env)) \<and>
    initialize env (g, t) = (Inr (), g', t') \<and>
    self_device g' = Some d \<and> d \<noteq> [] \<and> dict_contains d VALUE \<and>
    dict_get d TYPE_key = Some ty \<and>
    get_db_of_firmware env ty (self_firmware_version g') = Some db \<and> db \<noteq> []"
  then have "self_db g' = PDict (merge_db db (get_base_db env))"
    using initialize_binds_merged [of env g t g' t' d ty db] by blast
  with a show "py_getitem (self_db g') k =
              (if k \<noteq> MODELS \<and> dict_contains (get_base_db env) k
               then py_getitem (PDict (get_base_db env)) k
               else py_getitem (PDict db) k)"
    by (simp only: py_getitem_merge_db)
next
  fix k
  assume b: "distinct (map fst (get_initial_db env None)) \<and> truthy (self_firmware_version g)"
  then have "self_db (custom_initialize env extra_db g) =
    PDict (merge_db (get_custom_db env (self_firmware_version g) extra_db) (get_initial_db env None))"
    by (simp add: custom_initialize_def)
  with b show "py_getitem (self_db (custom_initialize env extra_db g)) k =
              (if k \<noteq> MODELS \<and> dict_contains (get_initial_db env None) k
               then py_getitem (PDict (get_initial_db env None)) k
               else py_getitem (PDict (get_custom_db env (self_firmware_version g) extra_db)) k)"
    by (simp only: py_getitem_merge_db)
qed

theorem merged_schema_takes_base_entries_witness:
  "distinct (map fst (get_base_db example_env)) \<and>
   fst (initialize example_env (BaseGateway ''192.168.0.10'', example_transport)) = Inr () \<and>
   self_device example_gateway =
     Some [(VALUE, PStr ''CT100''), (NAME, PStr ''Easycontrol''), (TYPE_key, PStr ''EASYCONTROL'')] \<and>
   get_db_of_firmware example_env (PStr ''EASYCONTROL'') (self_firmware_version example_gateway) =
     Some example_firmware_db \<and>
   dict_contains (get_base_db example_env) GATEWAY \<and>
   py_getitem (self_db example_gateway) GATEWAY = py_getitem (PDict (get_base_db example_env)) GATEWAY \<and>
   \<not> dict_contains (get_base_db example_env) HEATING_CIRCUITS \<and>
   py_getitem (self_db example_gateway) HEATING_CIRCUITS =
     py_getitem (PDict example_firmware_db) HEATING_CIRCUITS \<and>
   distinct (map fst (get_initial_db example_env None)) \<and>
   truthy (self_firmware_version example_gateway) \<and>
   py_getitem (self_db (custom_initialize example_env (PDict example_firmware_db) example_gateway))
     GATEWAY = py_getitem (PDict (get_initial_db example_env None)) GATEWAY"
proof -
  let ?fresh = "BaseGateway ''192.168.0.10''"
  let ?out = "initialize example_env (?fresh, example_transport)"
  let ?d = "[(VALUE, PStr ''CT100''), (NAME, PStr ''Easycontrol''), (TYPE_key, PStr ''EASYCONTROL'')]"
  have h1: "distinct (map fst (get_base_db example_env))" by code_simp
  have ok: "fst ?out = Inr ()" by code_simp
  have h2: "?out = (Inr (), example_gateway, snd (snd ?out))"
    using ok by (metis example_gateway_def prod.collapse)
  have h3: "self_device example_gateway = Some ?d" by code_simp
  have h4: "?d \<noteq> []" by simp
  have h5: "dict_contains ?d VALUE" by code_simp
  have h6: "dict_get ?d TYPE_key = Some (PStr ''EASYCONTROL'')" by code_simp
  have h7: "get_db_of_firmware example_env (PStr ''EASYCONTROL'')
              (self_firmware_version example_gateway) = Some example_firmware_db"
    by code_simp
  have h8: "example_firmware_db \<noteq> []" by code_simp
  have c1: "dict_contains (get_base_db example_env) GATEWAY" by code_simp
  have c2: "\<not> dict_contains (get_base_db example_env) HEATING_CIRCUITS" by code_simp
  have c3: "GATEWAY \<noteq> MODELS" by code_simp
  have k1: "distinct (map fst (get_initial_db example_env None))" by code_simp
  have k2: "truthy (self_firmware_version example_gateway)" by code_simp
  have k3: "dict_contains (get_initial_db example_env None) GATEWAY" by code_simp
  note inst = merged_schema_takes_base_entries
         [of example_env ?fresh example_transport example_gateway "snd (snd ?out)" ?d
             "PStr ''EASYCONTROL''" example_firmware_db]
  note custom = merged_schema_takes_base_entries
         [where env = example_env and g = example_gateway
            and extra_db = "PDict example_firmware_db"]
  from inst h1 h2 h3 h4 h5 h6 h7 h8
  have m: "\<forall>k. py_getitem (self_db example_gateway) k =
              (if k \<noteq> MODELS \<and> dict_contains (get_base_db example_env) k
               then py_getitem (PDict (get_base_db example_env)) k
               else py_getitem (PDict example_firmware_db) k)"
    by blast
  from custom k1 k2
  have n: "\<forall>k. py_getitem (self_db (custom_initialize example_env (PDict example_firmware_db) example_gateway)) k =
              (if k \<noteq> MODELS \<and> dict_contains (get_initial_db example_env None) k
               then py_getitem (PDict (get_initial_db example_env None)) k
               else py_getitem (PDict (get_custom_db example_env (self_firmware_version example_gateway) (PDict example_firmware_db))) k)"
    by blast
  from m [rule_format, of GATEWAY] m [rule_format, of HEATING_CIRCUITS] n [rule_format, of GATEWAY]
       c1 c2 c3 k3 h1 ok h3 h7 k1 k2
  show ?thesis
    by simp
qed

text \<open>
  C6 as stated fails: on the example device the firmware schema and the base schema both
  have a gateway section, and the schema bound by \<^verbatim>\<open>initialize\<close> has the base
  schema's.
\<close>

theorem merged_schema_prefers_device_entries_counterexample:
  "get_db_of_firmware example_env (PStr ''EASYCONTROL'') (PStr ''04.08.02'') =
     Some example_firmware_db \<and>
   py_getitem (PDict example_firmware_db) GATEWAY =
     Inr (PDict [(UUID, PStr ''/gateway/uuid''), (DATE, PStr ''/gateway/DateTime'')]) \<and>
   py_getitem (PDict (get_base_db example_env)) GATEWAY =
     Inr (PDict [(UUID, PStr ''/gateway/uuid''),
                 (FIRMWARE_VERSION, PStr ''/gateway/versionFirmware'')]) \<and>
   py_getitem
     (self_db (fst (snd (initialize example_env (BaseGateway ''192.168.0.10'', example_transport)))))
     GATEWAY =
     Inr (PDict [(UUID, PStr ''/gateway/uuid''),
                 (FIRMWARE_VERSION, PStr ''/gateway/versionFirmware'')]) \<and>
   py_getitem
     (self_db (fst (snd (initialize example_env (BaseGateway ''192.168.0.10'', example_transport)))))
     GATEWAY \<noteq> py_getitem (PDict example_firmware_db) GATEWAY"
  by code_simp

subsection \<open>What the operations leave unchanged\<close>

lemma info_setitem_others:
  "info_setitem g k v = Inr g' \<Longrightarrow> g'\<lparr>self_data := self_data g\<rparr> = g"
  by (auto simp: info_setitem_def split: option.splits slot.splits)

lemma current_date_others:
  "current_date (g, t) = (r, g', t') \<Longrightarrow> g'\<lparr>self_data := self_data g\<rparr> = g"
  by (auto simp: current_date_def connector_get_def dest: info_setitem_others
           split: sum.splits prod.splits)

lemma initialize_circuits_others:
  "initialize_circuits env c (g, t) = (r, g', t') \<Longrightarrow> g'\<lparr>self_data := self_data g\<rparr> = g"
  by (auto simp: initialize_circuits_def Let_def split: sum.splits prod.splits)

lemma initialize_sensors_others:
  "initialize_sensors env chosen g = (r, g') \<Longrightarrow> g'\<lparr>self_data := self_data g\<rparr> = g"
  by (auto simp: initialize_sensors_def Let_def split: sum.splits if_splits)

lemma others_trans:
  "g1\<lparr>self_data := self_data g\<rparr> = g \<Longrightarrow> g2\<lparr>self_data := self_data g1\<rparr> = g1
   \<Longrightarrow> g2\<lparr>self_data := self_data g\<rparr> = g"
  by (metis gateway.update_convs(2) gateway.surjective)

lemma capabilities_loop_others:
  "capabilities_loop env cts supported (g, t) = (r, g', t') \<Longrightarrow> g'\<lparr>self_data := self_data g\<rparr> = g"
proof (induction cts arbitrary: supported g t)
  case Nil
  then show ?case by simp
next
  case (Cons c cts)
  obtain r1 g1 t1 where step: "initialize_circuits env c (g, t) = (r1, g1, t1)"
    by (cases "initialize_circuits env c (g, t)") auto
  note first = initialize_circuits_others [OF step]
  show ?case
  proof (cases r1)
    case (Inl e)
    show ?thesis
    proof (cases "e = DeviceException")
      case True
      with Cons.prems step Inl have "capabilities_loop env cts supported (g1, t1) = (r, g', t')"
        by simp
      from others_trans [OF first Cons.IH [OF this]] show ?thesis .
    next
      case False
      with Cons.prems step Inl first show ?thesis by simp
    qed
  next
    case (Inr obj)
    with Cons.prems step obtain sup where "capabilities_loop env cts sup (g1, t1) = (r, g', t')"
      by simp
    from others_trans [OF first Cons.IH [OF this]] show ?thesis .
  qed
qed

lemma get_capabilities_others:
  assumes "get_capabilities env (g, t) = (r, g', t')"
  shows "g'\<lparr>self_data := self_data g\<rparr> = g"
proof -
  obtain r1 g1 t1 where l: "capabilities_loop env (CIRCUIT_TYPES env) [] (g, t) = (r1, g1, t1)"
    by (cases "capabilities_loop env (CIRCUIT_TYPES env) [] (g, t)") auto
  note first = capabilities_loop_others [OF l]
  obtain r2 g2 where s: "initialize_sensors env PNone g1 = (r2, g2)"
    by (cases "initialize_sensors env PNone g1") auto
  note second = initialize_sensors_others [OF s]
  from assms l s have "g' = g1 \<or> g' = g2"
    by (auto simp: get_capabilities_def split: sum.splits)
  with first others_trans [OF first second] show ?thesis by auto
qed

lemma others_db: "g'\<lparr>self_data := self_data g\<rparr> = g \<Longrightarrow> self_db g' = self_db g"
  by (metis gateway.select_convs(5) gateway.surjective gateway.update_convs(2))

lemma check_connection_db:
  assumes "truthy (self_initialized g)"
  shows "self_db (fst (snd (check_connection env (g, t)))) = self_db g"
proof -
  obtain r g' t' where c: "check_connection env (g, t) = (r, g', t')"
    by (cases "check_connection env (g, t)") auto
  then obtain r0 where body: "check_connection_try env (g, t) = (r0, g', t')"
    using check_connection_cases by blast
  from check_connection_try_frame [OF assms body]
  have "self_db g' = self_db g"
    by (auto dest!: info_setitem_others others_db)
  with c show ?thesis by simp
qed

lemma check_connection_uninitialized:
  assumes "\<not> truthy (self_initialized g)"
  shows "snd (check_connection env (g, t)) = snd (initialize env (g, t))"
  using assms
  by (auto simp: check_connection_def check_connection_try_def split: prod.splits sum.splits)

text \<open>
  C9: no operation other than \<^verbatim>\<open>initialize\<close> and \<^verbatim>\<open>custom_initialize\<close> replaces
  the bound schema. \<^verbatim>\<open>get_capabilities\<close>, \<^verbatim>\<open>initialize_circuits\<close>,
  \<^verbatim>\<open>initialize_sensors\<close> and \<^verbatim>\<open>current_date\<close> end with the schema they started
  with; \<^verbatim>\<open>rawscan\<close> and \<^verbatim>\<open>smallscan\<close> leave the whole gateway state as it is;
  \<^verbatim>\<open>check_connection\<close> on an initialized gateway keeps the schema, and on a gateway
  that is not initialized it does to the state what the \<^verbatim>\<open>initialize\<close> call it
  makes does. The read accessors are functions of the state and return a value only.
\<close>

theorem bound_schema_unchanged_by_other_operations:
  "self_db (fst (snd (get_capabilities env (g, t)))) = self_db g \<and>
   self_db (fst (snd (initialize_circuits env c (g, t)))) = self_db g \<and>
   self_db (snd (initialize_sensors env chosen g)) = self_db g \<and>
   self_db (fst (snd (current_date (g, t)))) = self_db g \<and>
   fst (snd (rawscan env (g, t))) = g \<and>
   fst (snd (smallscan env ty (g, t))) = g \<and>
   (truthy (self_initialized g) \<longrightarrow>
      self_db (fst (snd (check_connection env (g, t)))) = self_db g) \<and>
   (\<not> truthy (self_initialized g) \<longrightarrow>
      snd (check_connection env (g, t)) = snd (initialize env (g, t)))"
proof -
  have a: "self_db (fst (snd (get_capabilities env (g, t)))) = self_db g"
    by (rule others_db, rule get_capabilities_others [of env g t "fst (get_capabilities env (g, t))" _ "snd (snd (get_capabilities env (g, t)))"]) simp
  have b: "self_db (fst (snd (initialize_circuits env c (g, t)))) = self_db g"
    by (rule others_db, rule initialize_circuits_others [of env c g t "fst (initialize_circuits env c (g, t))" _ "snd (snd (initialize_circuits env c (g, t)))"]) simp
  have c: "self_db (snd (initialize_sensors env chosen g)) = self_db g"
    by (rule others_db, rule initialize_sensors_others [of env chosen g "fst (initialize_sensors env chosen g)"]) simp
  have d: "self_db (fst (snd (current_date (g, t)))) = self_db g"
    by (rule others_db, rule current_date_others [of g t "fst (current_date (g, t))" _ "snd (snd (current_date (g, t)))"]) simp
  have e: "fst (snd (rawscan env (g, t))) = g"
    by (simp add: rawscan_def split: prod.splits)
  have f: "fst (snd (smallscan env ty (g, t))) = g"
    by (simp add: smallscan_def split: prod.splits sum.splits)
  from a b c d e f check_connection_db [of g env t] check_connection_uninitialized [of g env t]
  show ?thesis by blast
qed

theorem bound_schema_unchanged_by_other_operations_witness:
  "truthy (self_initialized example_gateway) \<and>
   truthy (self_db example_gateway) \<and>
   self_db (fst (snd (check_connection example_env (example_gateway, example_transport)))) =
     self_db example_gateway \<and>
   self_db (fst (snd (get_capabilities example_env (example_gateway, example_transport)))) =
     self_db example_gateway \<and>
   \<not> truthy (self_initialized (BaseGateway ''192.168.0.10'')) \<and>
   fst (snd (check_connection example_env (BaseGateway ''192.168.0.10'', example_transport))) =
     example_gateway"
proof -
  have ready: "truthy (self_initialized example_gateway)" by code_simp
  have bound: "truthy (self_db example_gateway)" by code_simp
  have fresh: "\<not> truthy (self_initialized (BaseGateway ''192.168.0.10''))" by code_simp
  from bound_schema_unchanged_by_other_operations
         [of example_env example_gateway example_transport HC PNone HC] ready
  have one: "self_db (fst (snd (check_connection example_env (example_gateway, example_transport)))) =
     self_db example_gateway \<and>
   self_db (fst (snd (get_capabilities example_env (example_gateway, example_transport)))) =
     self_db example_gateway"
    by blast
  from bound_schema_unchanged_by_other_operations
         [of example_env "BaseGateway ''192.168.0.10''" example_transport HC PNone HC] fresh
  have two: "fst (snd (check_connection example_env (BaseGateway ''192.168.0.10'', example_transport))) =
     example_gateway"
    by (simp add: example_gateway_def)
  from one two ready bound fresh show ?thesis by blast
qed

subsection \<open>Read accessors\<close>

text \<open>
  C5 (as amended): every read accessor is a lookup into the gateway state; none takes or
  returns the transport. \<^verbatim>\<open>get_info\<close> and \<^verbatim>\<open>uuid\<close> return the stored value, and
  \<^verbatim>\<open>None\<close> for a key that is not populated, while the gateway slot holds the info
  dictionary; \<^verbatim>\<open>firmware\<close>, \<^verbatim>\<open>database\<close> and \<^verbatim>\<open>device_name\<close> return the stored
  field, \<^verbatim>\<open>None\<close> while there is none; \<^verbatim>\<open>get_circuits\<close> returns \<^verbatim>\<open>None\<close> for a
  category that is not a key of the data dictionary. The per-category accessors return
  the entities of the collection once the category has been probed. For a category whose
  slot still holds \<^verbatim>\<open>None\<close> they raise \<^verbatim>\<open>AttributeError\<close>, and
  \<^verbatim>\<open>solar_circuits\<close> raises \<^verbatim>\<open>KeyError\<close> while the data dictionary has no solar
  slot.
\<close>

theorem read_accessors_are_lookups:
  "(dict_get (self_data g) GATEWAY = Some (Info d) \<longrightarrow>
      get_info g key = Inr (case dict_get d key of None \<Rightarrow> PNone | Some v \<Rightarrow> v) \<and>
      uuid g = Inr (case dict_get d UUID of None \<Rightarrow> PNone | Some v \<Rightarrow> v)) \<and>
   firmware g = self_firmware_version g \<and>
   database g = self_db g \<and>
   (self_device g = None \<longrightarrow> device_name g = PNone) \<and>
   (\<forall>dev. self_device g = Some dev \<longrightarrow>
      device_name g = (case dict_get dev NAME of None \<Rightarrow> PNone | Some v \<Rightarrow> v)) \<and>
   (dict_get (self_data g) c = None \<longrightarrow> get_circuits g c = Inr None) \<and>
   (\<forall>es. dict_get (self_data g) c = Some (CircuitsObj es) \<longrightarrow> get_circuits g c = Inr (Some es)) \<and>
   (dict_get (self_data g) c = Some Unset \<longrightarrow> get_circuits g c = Inl AttributeError) \<and>
   (\<forall>es. dict_get (self_data g) HC = Some (CircuitsObj es) \<longrightarrow> heating_circuits g = Inr es) \<and>
   (dict_get (self_data g) HC = Some Unset \<longrightarrow> heating_circuits g = Inl AttributeError) \<and>
   (\<forall>es. dict_get (self_data g) DHW = Some (CircuitsObj es) \<longrightarrow> dhw_circuits g = Inr es) \<and>
   (dict_get (self_data g) DHW = Some Unset \<longrightarrow> dhw_circuits g = Inl AttributeError) \<and>
   (\<forall>es. dict_get (self_data g) SC = Some (CircuitsObj es) \<longrightarrow> solar_circuits g = Inr es) \<and>
   (dict_get (self_data g) SC = None \<longrightarrow> solar_circuits g = Inl KeyError) \<and>
   (\<forall>es. dict_get (self_data g) SENSORS = Some (SensorsObj es) \<longrightarrow> sensors g = Inr es) \<and>
   (dict_get (self_data g) SENSORS = Some Unset \<longrightarrow> sensors g = Inl AttributeError)"
proof -
  have info: "dict_get (self_data g) GATEWAY = Some (Info d) \<longrightarrow>
      get_info g key = Inr (case dict_get d key of None \<Rightarrow> PNone | Some v \<Rightarrow> v) \<and>
      uuid g = Inr (case dict_get d UUID of None \<Rightarrow> PNone | Some v \<Rightarrow> v)"
    by (simp add: get_info_def uuid_def)
  have plain: "firmware g = self_firmware_version g \<and> database g = self_db g"
    by (simp add: firmware_def database_def)
  have name: "(self_device g = None \<longrightarrow> device_name g = PNone) \<and>
   (\<forall>dev. self_device g = Some dev \<longrightarrow>
      device_name g = (case dict_get dev NAME of None \<Rightarrow> PNone | Some v \<Rightarrow> v))"
    by (auto simp: device_name_def dict_get_def)
  have circ: "(dict_get (self_data g) c = None \<longrightarrow> get_circuits g c = Inr None) \<and>
   (\<forall>es. dict_get (self_data g) c = Some (CircuitsObj es) \<longrightarrow> get_circuits g c = Inr (Some es)) \<and>
   (dict_get (self_data g) c = Some Unset \<longrightarrow> get_circuits g c = Inl AttributeError)"
    by (simp add: get_circuits_def)
  have hc: "(\<forall>es. dict_get (self_data g) HC = Some (CircuitsObj es) \<longrightarrow> heating_circuits g = Inr es) \<and>
   (dict_get (self_data g) HC = Some Unset \<longrightarrow> heating_circuits g = Inl AttributeError)"
    by (simp add: heating_circuits_def)
  have dhw: "(\<forall>es. dict_get (self_data g) DHW = Some (CircuitsObj es) \<longrightarrow> dhw_circuits g = Inr es) \<and>
   (dict_get (self_data g) DHW = Some Unset \<longrightarrow> dhw_circuits g = Inl AttributeError)"
    by (simp add: dhw_circuits_def)
  have sc: "(\<forall>es. dict_get (self_data g) SC = Some (CircuitsObj es) \<longrightarrow> solar_circuits g = Inr es) \<and>
   (dict_get (self_data g) SC = None \<longrightarrow> solar_circuits g = Inl KeyError)"
    by (simp add: solar_circuits_def)
  have sens: "(\<forall>es. dict_get (self_data g) SENSORS = Some (SensorsObj es) \<longrightarrow> sensors g = Inr es) \<and>
   (dict_get (self_data g) SENSORS = Some Unset \<longrightarrow> sensors g = Inl AttributeError)"
    by (simp add: sensors_def)
  from info plain name circ hc dhw sc sens show ?thesis
    by blast
qed

theorem read_accessors_are_lookups_witness:
  "dict_get (self_data (BaseGateway ''192.168.0.10'')) GATEWAY = Some (Info []) \<and>
   get_info (BaseGateway ''192.168.0.10'') FIRMWARE_VERSION = Inr PNone \<and>
   uuid (BaseGateway ''192.168.0.10'') = Inr PNone \<and>
   self_device (BaseGateway ''192.168.0.10'') = None \<and>
   device_name (BaseGateway ''192.168.0.10'') = PNone \<and>
   dict_get (self_data (BaseGateway ''192.168.0.10'')) SC = None \<and>
   get_circuits (BaseGateway ''192.168.0.10'') SC = Inr None \<and>
   solar_circuits (BaseGateway ''192.168.0.10'') = Inl KeyError \<and>
   dict_get (self_data (BaseGateway ''192.168.0.10'')) SENSORS = Some Unset \<and>
   sensors (BaseGateway ''192.168.0.10'') = Inl AttributeError \<and>
   dict_get
     (self_data (fst (snd (get_capabilities example_env (example_gateway, example_transport))))) HC =
     Some (CircuitsObj [''/heatingCircuits/hc1'']) \<and>
   heating_circuits (fst (snd (get_capabilities example_env (example_gateway, example_transport)))) =
     Inr [''/heatingCircuits/hc1'']"
proof -
  let ?fresh = "BaseGateway ''192.168.0.10''"
  let ?probed = "fst (snd (get_capabilities example_env (example_gateway, example_transport)))"
  have h1: "dict_get (self_data ?fresh) GATEWAY = Some (Info [])" by code_simp
  have h2: "self_device ?fresh = None" by code_simp
  have h3: "dict_get (self_data ?fresh) SC = None" by code_simp
  have h4: "dict_get (self_data ?fresh) SENSORS = Some Unset" by code_simp
  have h5: "dict_get (self_data ?probed) HC = Some (CircuitsObj [''/heatingCircuits/hc1''])"
    by code_simp
  have e: "dict_get [] k = (None :: pyval option)" for k
    by (simp add: dict_get_def)
  from read_accessors_are_lookups [of ?fresh "[]" FIRMWARE_VERSION SC] h1 h2 h3 h4
  have one: "get_info ?fresh FIRMWARE_VERSION = Inr PNone \<and> uuid ?fresh = Inr PNone \<and>
    device_name ?fresh = PNone \<and> get_circuits ?fresh SC = Inr None \<and>
    solar_circuits ?fresh = Inl KeyError \<and> sensors ?fresh = Inl AttributeError"
    by (simp add: e)
  from read_accessors_are_lookups [of ?probed "[]" FIRMWARE_VERSION SC] h5
  have two: "heating_circuits ?probed = Inr [''/heatingCircuits/hc1'']"
    by blast
  from one two h1 h2 h3 h4 h5 show ?thesis by blast
qed

text \<open>
  C5 as stated fails: on a gateway as the constructor leaves it, the accessors of the
  categories that are not probed yet raise.
\<close>

theorem read_accessors_never_throw_counterexample:
  "dict_get (self_data (BaseGateway ''192.168.0.10'')) HC = Some Unset \<and>
   heating_circuits (BaseGateway ''192.168.0.10'') = Inl AttributeError \<and>
   get_circuits (BaseGateway ''192.168.0.10'') HC = Inl AttributeError \<and>
   sensors (BaseGateway ''192.168.0.10'') = Inl AttributeError \<and>
   solar_circuits (BaseGateway ''192.168.0.10'') = Inl KeyError"
  by code_simp

subsection \<open>Targeted scan\<close>




















subsection \<open>Capability discovery\<close>

lemma dict_get_setitem: "dict_get (dict_setitem k v d) k' = (if k' = k then Some v else dict_get d k')"
  by (simp add: dict_get_def dict_setitem_def update_conv')

lemma update_commute:
  "a \<noteq> k \<Longrightarrow> a \<in> fst ` set Y \<Longrightarrow>
   AList.update a b (AList.update k v Y) = AList.update k v (AList.update a b Y)"
  by (induction Y) auto

lemma dict_update_Cons:
  "dict_update D (kv # us) = dict_update (dict_setitem (fst kv) (snd kv) D) us"
  by (simp add: dict_update_def)

lemma dict_update_snoc:
  "dict_update D (us @ [kv]) = dict_setitem (fst kv) (snd kv) (dict_update D us)"
  by (simp add: dict_update_def)

lemma dict_update_keys: "fst ` set D \<union> fst ` set us \<subseteq> fst ` set (dict_update D us)"
proof (induction us arbitrary: D)
  case Nil
  then show ?case by (simp add: dict_update_def)
next
  case (Cons kv us)
  have "fst ` set (dict_setitem (fst kv) (snd kv) D) = insert (fst kv) (fst ` set D)"
    by (simp add: dict_setitem_def dom_update)
  with Cons [of "dict_setitem (fst kv) (snd kv) D"] show ?case
    by (auto simp: dict_update_Cons)
qed

lemma dict_update_absorb:
  "fst ` set us \<subseteq> fst ` set Y \<Longrightarrow>
   dict_setitem k v (dict_update (dict_setitem k v' Y) us) = dict_setitem k v (dict_update Y us)"
proof (induction us arbitrary: Y)
  case Nil
  then show ?case by (simp add: dict_update_def dict_setitem_def)
next
  case (Cons ab us)
  obtain a b where ab: "ab = (a, b)" by (cases ab)
  from Cons.prems ab have a: "a \<in> fst ` set Y" and rest: "fst ` set us \<subseteq> fst ` set Y"
    by auto
  have keys: "fst ` set us \<subseteq> fst ` set (dict_setitem a b Y)"
    using rest by (auto simp: dict_setitem_def dom_update)
  show ?case
  proof (cases "a = k")
    case True
    then show ?thesis
      by (simp add: ab dict_update_Cons dict_setitem_def)
  next
    case False
    have "dict_setitem a b (dict_setitem k v' Y) = dict_setitem k v' (dict_setitem a b Y)"
      unfolding dict_setitem_def by (rule update_commute [OF False a])
    with Cons.IH [OF keys] show ?thesis
      by (simp add: ab dict_update_Cons)
  qed
qed

lemma dict_update_idem: "dict_update (dict_update D us) us = dict_update D us"
proof (induction us arbitrary: D rule: rev_induct)
  case Nil
  then show ?case by (simp add: dict_update_def)
next
  case (snoc kv us)
  let ?E = "dict_update D us"
  have keys: "fst ` set us \<subseteq> fst ` set ?E"
    using dict_update_keys [of D us] by blast
  have "dict_update (dict_update D (us @ [kv])) (us @ [kv]) =
        dict_setitem (fst kv) (snd kv) (dict_update (dict_setitem (fst kv) (snd kv) ?E) us)"
    by (simp add: dict_update_snoc)
  also have "\<dots> = dict_setitem (fst kv) (snd kv) (dict_update ?E us)"
    by (rule dict_update_absorb [OF keys])
  also have "\<dots> = dict_setitem (fst kv) (snd kv) ?E"
    by (simp add: snoc.IH)
  finally show ?case
    by (simp add: dict_update_snoc)
qed

lemma initialize_circuits_result:
  assumes "discovery env g c t = (r, es, t1)"
  shows "initialize_circuits env c (g, t) =
           ((case r of Inl e \<Rightarrow> Inl e | Inr u \<Rightarrow> Inr (Some es)),
            g\<lparr>self_data := dict_setitem c (CircuitsObj es) (self_data g)\<rparr>, t1)"
  using assms
  by (cases r) (simp_all add: initialize_circuits_def discovery_def get_circuits_def dict_get_setitem)

lemma discovery_others:
  "self_bus_type g1 = self_bus_type g \<Longrightarrow> self_db g1 = self_db g \<Longrightarrow> discovery env g1 = discovery env g"
  by (intro ext) (simp add: discovery_def)

lemma capabilities_loop_result:
  assumes "list_all (soft env g) (zip cts (probe_transports env g cts t))"
      and "self_bus_type ga = self_bus_type g" and "self_db ga = self_db g"
  shows "\<exists>g' t'. capabilities_loop env cts supported (ga, t) =
           (Inr (supported @ map fst (filter (found env g) (zip cts (probe_transports env g cts t)))),
            g', t') \<and> self_db g' = self_db g"
  using assms
proof (induction cts arbitrary: supported ga t)
  case Nil
  then show ?case by simp
next
  case (Cons c cts)
  obtain r es t1 where d: "discovery env g c t = (r, es, t1)"
    by (cases "discovery env g c t") auto
  have same: "discovery env ga = discovery env g"
    using Cons.prems(2,3) by (rule discovery_others)
  let ?g1 = "ga\<lparr>self_data := dict_setitem c (CircuitsObj es) (self_data ga)\<rparr>"
  have step: "initialize_circuits env c (ga, t) =
           ((case r of Inl e \<Rightarrow> Inl e | Inr u \<Rightarrow> Inr (Some es)), ?g1, t1)"
    using d same by (intro initialize_circuits_result) simp
  have rest: "list_all (soft env g) (zip cts (probe_transports env g cts t1))"
    using Cons.prems(1) d by simp
  have b: "self_bus_type ?g1 = self_bus_type g" and db: "self_db ?g1 = self_db g"
    using Cons.prems(2,3) by simp_all
  from Cons.prems(1) d have tolerated: "case r of Inl e \<Rightarrow> e = DeviceException | Inr u \<Rightarrow> True"
    by (cases r) (simp_all add: soft_def)
  show ?case
  proof (cases r)
    case (Inl e)
    with tolerated have e: "e = DeviceException" by simp
    from Cons.IH [OF rest b db, of supported] Inl e d step show ?thesis
      by (simp add: found_def)
  next
    case (Inr u)
    show ?thesis
    proof (cases "es = []")
      case True
      from Cons.IH [OF rest b db, of supported] Inr True d step show ?thesis
        by (simp add: found_def)
    next
      case False
      from Cons.IH [OF rest b db, of "supported @ [c]"] Inr False d step show ?thesis
        by (simp add: found_def)
    qed
  qed
qed

text \<open>
  C1 (as amended): on a gateway whose bound schema has a sensor section,
  \<^verbatim>\<open>get_capabilities\<close> probes every circuit category in turn, each on the transport
  as the probe before it left it. When every probe ends normally or with a
  \<^verbatim>\<open>DeviceException\<close>, no error leaves \<^verbatim>\<open>get_capabilities\<close>: the capability set is
  the list of the categories whose probe found a non-empty collection, in order, followed
  by the sensor category. A category whose probe raised a \<^verbatim>\<open>DeviceException\<close> is left
  out and the categories after it are probed all the same. The sensor collection is
  built and stored in the sensor slot.
\<close>

theorem get_capabilities_skips_failed_categories:
  assumes "py_getitem (self_db g) SENSORS = Inr schema"
      and "list_all (soft env g)
             (zip (CIRCUIT_TYPES env) (probe_transports env g (CIRCUIT_TYPES env) t))"
  shows "\<exists>g' t'. get_capabilities env (g, t) =
           (Inr (map fst (filter (found env g)
                            (zip (CIRCUIT_TYPES env) (probe_transports env g (CIRCUIT_TYPES env) t)))
                 @ [SENSOR]), g', t') \<and>
           dict_get (self_data g') SENSORS = Some (SensorsObj (Sensors_new env schema schema))"
proof -
  from capabilities_loop_result [OF assms(2), of g "[]"]
  obtain g1 t1 where loop: "capabilities_loop env (CIRCUIT_TYPES env) [] (g, t) =
           (Inr (map fst (filter (found env g)
                   (zip (CIRCUIT_TYPES env) (probe_transports env g (CIRCUIT_TYPES env) t)))), g1, t1)"
    and db: "self_db g1 = self_db g"
    by auto
  from assms(1) obtain d where d: "self_db g = PDict d" and s: "dict_get d SENSORS = Some schema"
    by (cases "self_db g") (auto split: option.splits)
  let ?g2 = "g1\<lparr>self_data := dict_setitem SENSORS (SensorsObj (Sensors_new env schema schema)) (self_data g1)\<rparr>"
  have "initialize_sensors env PNone g1 = (Inr (Sensors_new env schema schema), ?g2)"
    using db d s by (simp add: initialize_sensors_def sensors_def dict_get_setitem)
  with loop show ?thesis
    by (simp add: get_capabilities_def dict_get_setitem)
qed

text \<open>
  C1 as stated fails: on a gateway without a bound schema, as the constructor leaves it,
  the three probes of the example end softly and \<^verbatim>\<open>initialize_sensors\<close> then raises
  \<^verbatim>\<open>AttributeError\<close> on \<^verbatim>\<open>self._db.get(SENSORS)\<close>, which leaves
  \<^verbatim>\<open>get_capabilities\<close>.
\<close>

theorem get_capabilities_no_exception_counterexample:
  "self_db (BaseGateway ''192.168.0.10'') = PNone \<and>
   fst (get_capabilities example_env (BaseGateway ''192.168.0.10'', example_transport)) =
     Inl AttributeError"
  by code_simp


theorem get_capabilities_skips_failed_categories_witness:
  "py_getitem (self_db example_gateway) SENSORS =
     Inr (PDict [(''outdoor_t1'', PDict [(ID, PStr ''/system/sensors/outdoor_t1'')])]) \<and>
   list_all (soft example_env example_gateway)
     (zip (CIRCUIT_TYPES example_env)
        (probe_transports example_env example_gateway (CIRCUIT_TYPES example_env)
           example_transport)) \<and>
   CIRCUIT_TYPES example_env = [DHW, HC, SC] \<and>
   fst (discovery example_env example_gateway DHW example_transport) = Inl DeviceException \<and>
   fst (get_capabilities example_env (example_gateway, example_transport)) = Inr [HC, SENSOR] \<and>
   (\<exists>es. dict_get
      (self_data (fst (snd (get_capabilities example_env (example_gateway, example_transport)))))
      SENSORS = Some (SensorsObj es))"
proof -
  let ?schema = "PDict [(''outdoor_t1'', PDict [(ID, PStr ''/system/sensors/outdoor_t1'')])]"
  let ?probes = "zip (CIRCUIT_TYPES example_env)
        (probe_transports example_env example_gateway (CIRCUIT_TYPES example_env)
           example_transport)"
  have h1: "py_getitem (self_db example_gateway) SENSORS = Inr ?schema"
    by code_simp
  have h2: "list_all (soft example_env example_gateway) ?probes"
    by code_simp
  have cts: "CIRCUIT_TYPES example_env = [DHW, HC, SC]"
    by (simp add: example_env_def)
  have dhw: "fst (discovery example_env example_gateway DHW example_transport) =
               Inl DeviceException"
    by code_simp
  have present: "map fst (filter (found example_env example_gateway) ?probes) = [HC]"
    by code_simp
  from get_capabilities_skips_failed_categories [OF h1 h2] present
  have "fst (get_capabilities example_env (example_gateway, example_transport)) =
          Inr [HC, SENSOR] \<and>
        (\<exists>es. dict_get
           (self_data (fst (snd (get_capabilities example_env (example_gateway, example_transport)))))
           SENSORS = Some (SensorsObj es))"
    by auto
  with h1 h2 cts dhw show ?thesis
    by blast
qed

lemma capabilities_loop_steady:
  assumes "steady_device env g t"
      and "self_bus_type ga = self_bus_type g" and "self_db ga = self_db g" and "reply ta = reply t"
      and "self_bus_type gb = self_bus_type g" and "self_db gb = self_db g" and "reply tb = reply t"
  shows "\<exists>r us ta' tb'.
           capabilities_loop env cts supported (ga, ta) =
             (r, ga\<lparr>self_data := dict_update (self_data ga) us\<rparr>, ta') \<and>
           capabilities_loop env cts supported (gb, tb) =
             (r, gb\<lparr>self_data := dict_update (self_data gb) us\<rparr>, tb') \<and>
           reply ta' = reply t \<and> reply tb' = reply t"
  using assms(2-)
proof (induction cts arbitrary: supported ga ta gb tb)
  case Nil
  show ?case
    by (rule exI [of _ "Inr supported"], rule exI [of _ "[]"])
       (simp add: dict_update_def Nil.prems)
next
  case (Cons c cts)
  obtain r es t0 where d: "discovery env g c t = (r, es, t0)"
    by (cases "discovery env g c t") auto
  obtain ra esa ta1 where da: "discovery env g c ta = (ra, esa, ta1)"
    by (cases "discovery env g c ta") auto
  obtain rb esb tb1 where db: "discovery env g c tb = (rb, esb, tb1)"
    by (cases "discovery env g c tb") auto
  from assms(1) Cons.prems(3) d da have a: "ra = r" "esa = es" "reply ta1 = reply t"
    unfolding steady_device_def by (metis fst_conv snd_conv)+
  from assms(1) Cons.prems(6) d db have b: "rb = r" "esb = es" "reply tb1 = reply t"
    unfolding steady_device_def by (metis fst_conv snd_conv)+
  let ?ga1 = "ga\<lparr>self_data := dict_setitem c (CircuitsObj es) (self_data ga)\<rparr>"
  let ?gb1 = "gb\<lparr>self_data := dict_setitem c (CircuitsObj es) (self_data gb)\<rparr>"
  have sa: "initialize_circuits env c (ga, ta) =
           ((case r of Inl e \<Rightarrow> Inl e | Inr u \<Rightarrow> Inr (Some es)), ?ga1, ta1)"
    using da a discovery_others [OF Cons.prems(1,2), of env]
    by (intro initialize_circuits_result) simp
  have sb: "initialize_circuits env c (gb, tb) =
           ((case r of Inl e \<Rightarrow> Inl e | Inr u \<Rightarrow> Inr (Some es)), ?gb1, tb1)"
    using db b discovery_others [OF Cons.prems(4,5), of env]
    by (intro initialize_circuits_result) simp
  have pa: "self_bus_type ?ga1 = self_bus_type g" "self_db ?ga1 = self_db g"
    using Cons.prems by simp_all
  have pb: "self_bus_type ?gb1 = self_bus_type g" "self_db ?gb1 = self_db g"
    using Cons.prems by simp_all
  have stop: ?case if "r = Inl e" "e \<noteq> DeviceException" for e
    by (rule exI [of _ "Inl e"], rule exI [of _ "[(c, CircuitsObj es)]"])
       (simp add: sa sb that dict_update_def a b)
  have continue: ?case
    if "capabilities_loop env (c # cts) supported (ga, ta) =
          capabilities_loop env cts sup (?ga1, ta1)"
       "capabilities_loop env (c # cts) supported (gb, tb) =
          capabilities_loop env cts sup (?gb1, tb1)" for sup
  proof -
    from Cons.IH [OF pa a(3) pb b(3), of sup]
    obtain r' us ta' tb' where
      "capabilities_loop env cts sup (?ga1, ta1) =
         (r', ?ga1\<lparr>self_data := dict_update (self_data ?ga1) us\<rparr>, ta')"
      "capabilities_loop env cts sup (?gb1, tb1) =
         (r', ?gb1\<lparr>self_data := dict_update (self_data ?gb1) us\<rparr>, tb')"
      "reply ta' = reply t" "reply tb' = reply t"
      by blast
    then show ?thesis
      by (intro exI [of _ r'] exI [of _ "(c, CircuitsObj es) # us"] exI [of _ ta'] exI [of _ tb'])
         (simp only: that, simp add: dict_update_Cons)
  qed
  show ?case
  proof (cases r)
    case (Inl e)
    show ?thesis
    proof (cases "e = DeviceException")
      case True
      show ?thesis
        by (rule continue [of supported]) (simp_all add: sa sb Inl True)
    next
      case False
      with Inl stop show ?thesis by blast
    qed
  next
    case (Inr u)
    show ?thesis
      by (rule continue [of "if es \<noteq> [] then supported @ [c] else supported"])
         (simp_all add: sa sb Inr)
  qed
qed

lemma get_capabilities_steady:
  assumes "steady_device env g t"
      and "self_bus_type ga = self_bus_type g" and "self_db ga = self_db g" and "reply ta = reply t"
      and "self_bus_type gb = self_bus_type g" and "self_db gb = self_db g" and "reply tb = reply t"
  shows "\<exists>r us ta' tb'.
           get_capabilities env (ga, ta) =
             (r, ga\<lparr>self_data := dict_update (self_data ga) us\<rparr>, ta') \<and>
           get_capabilities env (gb, tb) =
             (r, gb\<lparr>self_data := dict_update (self_data gb) us\<rparr>, tb') \<and>
           reply ta' = reply t \<and> reply tb' = reply t"
proof -
  from capabilities_loop_steady [OF assms, of "CIRCUIT_TYPES env" "[]"]
  obtain r us ta' tb' where
    la: "capabilities_loop env (CIRCUIT_TYPES env) [] (ga, ta) =
             (r, ga\<lparr>self_data := dict_update (self_data ga) us\<rparr>, ta')" and
    lb: "capabilities_loop env (CIRCUIT_TYPES env) [] (gb, tb) =
             (r, gb\<lparr>self_data := dict_update (self_data gb) us\<rparr>, tb')" and
    rep: "reply ta' = reply t" "reply tb' = reply t"
    by blast
  let ?ga1 = "ga\<lparr>self_data := dict_update (self_data ga) us\<rparr>"
  let ?gb1 = "gb\<lparr>self_data := dict_update (self_data gb) us\<rparr>"
  show ?thesis
  proof (cases r)
    case (Inl e)
    with la lb rep show ?thesis
      by (intro exI [of _ "Inl e"] exI [of _ us] exI [of _ ta'] exI [of _ tb'])
         (simp add: get_capabilities_def)
  next
    case (Inr supported)
    have dbs: "self_db ?ga1 = self_db g" "self_db ?gb1 = self_db g"
      using assms by simp_all
    show ?thesis
    proof (cases "\<exists>chosen schema. py_get (self_db g) SENSORS = Inr chosen \<and>
                     py_getitem (self_db g) SENSORS = Inr schema")
      case True
      then obtain chosen schema where c: "py_get (self_db g) SENSORS = Inr chosen"
        and s: "py_getitem (self_db g) SENSORS = Inr schema"
        by blast
      let ?kv = "(SENSORS, SensorsObj (Sensors_new env chosen schema))"
      have "initialize_sensors env PNone ?ga1 =
              (Inr (Sensors_new env chosen schema),
               ga\<lparr>self_data := dict_update (self_data ga) (us @ [?kv])\<rparr>)"
           "initialize_sensors env PNone ?gb1 =
              (Inr (Sensors_new env chosen schema),
               gb\<lparr>self_data := dict_update (self_data gb) (us @ [?kv])\<rparr>)"
        using dbs c s
        by (simp_all add: initialize_sensors_def sensors_def dict_get_setitem dict_update_snoc Let_def)
      with la lb rep Inr show ?thesis
        by (intro exI [of _ "Inr (supported @ [SENSOR])"] exI [of _ "us @ [?kv]"]
                  exI [of _ ta'] exI [of _ tb'])
           (simp add: get_capabilities_def)
    next
      case False
      then obtain e where
        "initialize_sensors env PNone ?ga1 = (Inl e, ?ga1)"
        "initialize_sensors env PNone ?gb1 = (Inl e, ?gb1)"
        using dbs
        by (cases "py_get (self_db g) SENSORS"; cases "py_getitem (self_db g) SENSORS")
           (auto simp: initialize_sensors_def)
      with la lb rep Inr show ?thesis
        by (intro exI [of _ "Inl e"] exI [of _ us] exI [of _ ta'] exI [of _ tb'])
           (simp add: get_capabilities_def)
    qed
  qed
qed

lemma dict_get_dict_update_map:
  "dict_get (dict_update D (map (\<lambda>c. (c, f c)) cts)) k =
     (if k \<in> set cts then Some (f k) else dict_get D k)"
proof (induction cts arbitrary: D)
  case Nil
  show ?case by (simp add: dict_update_def)
next
  case (Cons c cts)
  show ?case
    using Cons [of "dict_setitem c (f c) D"]
    by (simp add: dict_update_Cons dict_get_setitem)
qed

lemma found_outcome:
  "found env g (c, t) =
     (case fst (discovery env g c t) of Inl e \<Rightarrow> False
      | Inr u \<Rightarrow> fst (snd (discovery env g c t)) \<noteq> [])"
  by (cases "discovery env g c t") (simp add: found_def split: sum.splits)

lemma capabilities_loop_slots:
  assumes "steady_device env g t"
      and "self_bus_type ga = self_bus_type g" and "self_db ga = self_db g" and "reply ta = reply t"
  shows "\<exists>r us ta'.
           capabilities_loop env cts supported (ga, ta) =
             (r, ga\<lparr>self_data := dict_update (self_data ga) us\<rparr>, ta') \<and>
           reply ta' = reply t \<and>
           (\<forall>sup. r = Inr sup \<longrightarrow>
              us = map (\<lambda>c. (c, CircuitsObj (fst (snd (discovery env g c t))))) cts \<and>
              sup = supported @ filter (\<lambda>c. found env g (c, t)) cts) \<and>
           (\<forall>e. r = Inl e \<longrightarrow>
              e \<noteq> DeviceException \<and> (\<exists>c\<in>set cts. fst (discovery env g c t) = Inl e))"
  using assms(2-)
proof (induction cts arbitrary: supported ga ta)
  case Nil
  show ?case
    by (rule exI [of _ "Inr supported"], rule exI [of _ "[]"])
       (simp add: dict_update_def Nil.prems)
next
  case (Cons c cts)
  obtain r es t0 where d: "discovery env g c t = (r, es, t0)"
    by (cases "discovery env g c t") auto
  obtain ra esa ta1 where da: "discovery env g c ta = (ra, esa, ta1)"
    by (cases "discovery env g c ta") auto
  from assms(1) Cons.prems(3) d da have a: "ra = r" "esa = es" "reply ta1 = reply t"
    unfolding steady_device_def by (metis fst_conv snd_conv)+
  let ?ga1 = "ga\<lparr>self_data := dict_setitem c (CircuitsObj es) (self_data ga)\<rparr>"
  have sa: "initialize_circuits env c (ga, ta) =
           ((case r of Inl e \<Rightarrow> Inl e | Inr u \<Rightarrow> Inr (Some es)), ?ga1, ta1)"
    using da a discovery_others [OF Cons.prems(1,2), of env]
    by (intro initialize_circuits_result) simp
  have pa: "self_bus_type ?ga1 = self_bus_type g" "self_db ?ga1 = self_db g"
    using Cons.prems by simp_all
  have stop: ?case if "r = Inl e" "e \<noteq> DeviceException" for e
    by (rule exI [of _ "Inl e"], rule exI [of _ "[(c, CircuitsObj es)]"])
       (simp add: sa that dict_update_def a d)
  have continue: ?case
    if "capabilities_loop env (c # cts) supported (ga, ta) =
          capabilities_loop env cts sup (?ga1, ta1)"
       "sup = supported @ filter (\<lambda>c. found env g (c, t)) [c]" for sup
  proof -
    from Cons.IH [OF pa a(3), of sup]
    obtain r' us ta' where run:
      "capabilities_loop env cts sup (?ga1, ta1) =
         (r', ?ga1\<lparr>self_data := dict_update (self_data ?ga1) us\<rparr>, ta')"
      "reply ta' = reply t"
      and ok: "\<forall>sup'. r' = Inr sup' \<longrightarrow>
              us = map (\<lambda>c. (c, CircuitsObj (fst (snd (discovery env g c t))))) cts \<and>
              sup' = sup @ filter (\<lambda>c. found env g (c, t)) cts"
      and bad: "\<forall>e. r' = Inl e \<longrightarrow>
              e \<noteq> DeviceException \<and> (\<exists>c\<in>set cts. fst (discovery env g c t) = Inl e)"
      by blast
    have "capabilities_loop env (c # cts) supported (ga, ta) =
            (r', ga\<lparr>self_data := dict_update (self_data ga) ((c, CircuitsObj es) # us)\<rparr>, ta')"
      using run(1) by (simp only: that(1), simp add: dict_update_Cons)
    moreover have "\<forall>sup'. r' = Inr sup' \<longrightarrow>
              (c, CircuitsObj es) # us =
                map (\<lambda>c. (c, CircuitsObj (fst (snd (discovery env g c t))))) (c # cts) \<and>
              sup' = supported @ filter (\<lambda>c. found env g (c, t)) (c # cts)"
      using ok that(2) d by auto
    moreover have "\<forall>e. r' = Inl e \<longrightarrow>
              e \<noteq> DeviceException \<and> (\<exists>c\<in>set (c # cts). fst (discovery env g c t) = Inl e)"
      using bad by auto
    ultimately show ?thesis
      using run(2)
      by (intro exI [of _ r'] exI [of _ "(c, CircuitsObj es) # us"] exI [of _ ta']) blast
  qed
  show ?case
  proof (cases r)
    case (Inl e)
    show ?thesis
    proof (cases "e = DeviceException")
      case True
      show ?thesis
        by (rule continue [of supported])
           (simp_all add: sa Inl True found_outcome d)
    next
      case False
      with Inl stop show ?thesis by blast
    qed
  next
    case (Inr u)
    show ?thesis
      by (rule continue [of "if es \<noteq> [] then supported @ [c] else supported"])
         (simp_all add: sa Inr found_outcome d)
  qed
qed

lemma get_capabilities_slots:
  assumes "steady_device env g t"
      and "self_bus_type ga = self_bus_type g" and "self_db ga = self_db g" and "reply ta = reply t"
  shows "\<exists>r us ta'.
           get_capabilities env (ga, ta) =
             (r, ga\<lparr>self_data := dict_update (self_data ga) us\<rparr>, ta') \<and>
           (\<forall>sup. r = Inr sup \<longrightarrow>
              (\<exists>schema. py_getitem (self_db g) SENSORS = Inr schema \<and>
                 us = map (\<lambda>c. (c, CircuitsObj (fst (snd (discovery env g c t)))))
                        (CIRCUIT_TYPES env) @
                      [(SENSORS, SensorsObj (Sensors_new env schema schema))]) \<and>
              sup = filter (\<lambda>c. found env g (c, t)) (CIRCUIT_TYPES env) @ [SENSOR]) \<and>
           (\<forall>e. r = Inl e \<longrightarrow>
              (e \<noteq> DeviceException \<and>
               (\<exists>c\<in>set (CIRCUIT_TYPES env). fst (discovery env g c t) = Inl e)) \<or>
              (\<exists>e'. py_getitem (self_db g) SENSORS = Inl e'))"
proof -
  from capabilities_loop_slots [OF assms, of "CIRCUIT_TYPES env" "[]"]
  obtain r us ta' where
    la: "capabilities_loop env (CIRCUIT_TYPES env) [] (ga, ta) =
             (r, ga\<lparr>self_data := dict_update (self_data ga) us\<rparr>, ta')"
    and ok: "\<forall>sup. r = Inr sup \<longrightarrow>
              us = map (\<lambda>c. (c, CircuitsObj (fst (snd (discovery env g c t))))) (CIRCUIT_TYPES env) \<and>
              sup = filter (\<lambda>c. found env g (c, t)) (CIRCUIT_TYPES env)"
    and bad: "\<forall>e. r = Inl e \<longrightarrow>
              e \<noteq> DeviceException \<and>
              (\<exists>c\<in>set (CIRCUIT_TYPES env). fst (discovery env g c t) = Inl e)"
    by auto
  let ?ga1 = "ga\<lparr>self_data := dict_update (self_data ga) us\<rparr>"
  show ?thesis
  proof (cases r)
    case (Inl e)
    with la bad show ?thesis
      by (intro exI [of _ "Inl e"] exI [of _ us] exI [of _ ta'])
         (simp add: get_capabilities_def)
  next
    case (Inr supported)
    have dbs: "self_db ?ga1 = self_db g"
      using assms by simp
    show ?thesis
    proof (cases "py_getitem (self_db g) SENSORS")
      case schema: (Inr schema)
      then have chosen: "py_get (self_db g) SENSORS = Inr schema"
        by (cases "self_db g") (auto split: option.splits)
      let ?kv = "(SENSORS, SensorsObj (Sensors_new env schema schema))"
      have "initialize_sensors env PNone ?ga1 =
              (Inr (Sensors_new env schema schema),
               ga\<lparr>self_data := dict_update (self_data ga) (us @ [?kv])\<rparr>)"
        using dbs chosen schema
        by (simp add: initialize_sensors_def sensors_def dict_get_setitem dict_update_snoc Let_def)
      with la Inr ok schema show ?thesis
        by (intro exI [of _ "Inr (supported @ [SENSOR])"] exI [of _ "us @ [?kv]"] exI [of _ ta'])
           (simp add: get_capabilities_def)
    next
      case none: (Inl e')
      then obtain e where "initialize_sensors env PNone ?ga1 = (Inl e, ?ga1)"
        using dbs
        by (cases "py_get (self_db g) SENSORS") (auto simp: initialize_sensors_def)
      with la Inr none show ?thesis
        by (intro exI [of _ "Inl e"] exI [of _ us] exI [of _ ta'])
           (simp add: get_capabilities_def)
    qed
  qed
qed

text \<open>
  C7: with no change in device state, a second \<^verbatim>\<open>get_capabilities\<close> right after a
  first ends the same way (the same capability set, or the same error) and leaves the
  gateway state exactly as the first left it. When the second run ends normally, the
  capability set is the list of the categories its discovery finds, followed by the sensor
  category; the slot of every circuit category holds a \<^verbatim>\<open>Circuits\<close> object with
  exactly the entities the discovery of that category yields in this run, whatever the
  slot held before; the sensor slot holds the \<^verbatim>\<open>Sensors\<close> object built from the
  schema; and every other slot is as it was before the first run. An error ends the run
  only if it is an error other than \<^verbatim>\<open>DeviceException\<close> of the discovery of a
  category, or if the bound schema has no sensor section.
\<close>

theorem get_capabilities_twice:
  assumes "steady_device env g t"
      and "get_capabilities env (g, t) = (r1, g1, t1)"
      and "get_capabilities env (g1, t1) = (r2, g2, t2)"
  shows "r2 = r1 \<and> g2 = g1 \<and>
         (\<forall>sup. r2 = Inr sup \<longrightarrow>
            sup = filter (\<lambda>c. found env g1 (c, t1)) (CIRCUIT_TYPES env) @ [SENSOR] \<and>
            (\<forall>c\<in>set (CIRCUIT_TYPES env). c \<noteq> SENSORS \<longrightarrow>
               dict_get (self_data g2) c =
                 Some (CircuitsObj (fst (snd (discovery env g1 c t1))))) \<and>
            (\<exists>schema. py_getitem (self_db g1) SENSORS = Inr schema \<and>
               dict_get (self_data g2) SENSORS =
                 Some (SensorsObj (Sensors_new env schema schema))) \<and>
            (\<forall>k. k \<notin> set (CIRCUIT_TYPES env) \<and> k \<noteq> SENSORS \<longrightarrow>
               dict_get (self_data g2) k = dict_get (self_data g) k)) \<and>
         (\<forall>e. r2 = Inl e \<longrightarrow>
            (e \<noteq> DeviceException \<and>
             (\<exists>c\<in>set (CIRCUIT_TYPES env). fst (discovery env g1 c t1) = Inl e)) \<or>
            (\<exists>e'. py_getitem (self_db g1) SENSORS = Inl e'))"
proof -
  from get_capabilities_steady [OF assms(1), of g t g t] assms(2)
  obtain us where g1: "g1 = g\<lparr>self_data := dict_update (self_data g) us\<rparr>"
    and t1: "reply t1 = reply t"
    by auto
  have same: "self_bus_type g1 = self_bus_type g" "self_db g1 = self_db g"
    by (simp_all add: g1)
  from get_capabilities_steady [OF assms(1) _ _ _ same t1, of g t] assms(2,3)
  obtain ws where "g1 = g\<lparr>self_data := dict_update (self_data g) ws\<rparr>"
    "g2 = g1\<lparr>self_data := dict_update (self_data g1) ws\<rparr>" "r2 = r1"
    by auto
  then have stable: "r2 = r1" "g2 = g1"
    by (metis dict_update_idem gateway.select_convs(2) gateway.surjective gateway.update_convs(2))+
  have disc: "discovery env g1 = discovery env g"
    using same by (rule discovery_others)
  have out: "fst (discovery env g c t1) = fst (discovery env g c t)"
            "fst (snd (discovery env g c t1)) = fst (snd (discovery env g c t))" for c
    using assms(1) t1 unfolding steady_device_def by blast+
  have fnd: "found env g1 (c, t1) = found env g (c, t)" for c
    unfolding found_outcome disc out ..
  from get_capabilities_slots [OF assms(1), of g t] assms(2)
  obtain vs where first: "g1 = g\<lparr>self_data := dict_update (self_data g) vs\<rparr>"
    and ok: "\<forall>sup. r1 = Inr sup \<longrightarrow>
              (\<exists>schema. py_getitem (self_db g) SENSORS = Inr schema \<and>
                 vs = map (\<lambda>c. (c, CircuitsObj (fst (snd (discovery env g c t)))))
                        (CIRCUIT_TYPES env) @
                      [(SENSORS, SensorsObj (Sensors_new env schema schema))]) \<and>
              sup = filter (\<lambda>c. found env g (c, t)) (CIRCUIT_TYPES env) @ [SENSOR]"
    and bad: "\<forall>e. r1 = Inl e \<longrightarrow>
              (e \<noteq> DeviceException \<and>
               (\<exists>c\<in>set (CIRCUIT_TYPES env). fst (discovery env g c t) = Inl e)) \<or>
              (\<exists>e'. py_getitem (self_db g) SENSORS = Inl e')"
    by auto
  have slots: "sup = filter (\<lambda>c. found env g1 (c, t1)) (CIRCUIT_TYPES env) @ [SENSOR] \<and>
            (\<forall>c\<in>set (CIRCUIT_TYPES env). c \<noteq> SENSORS \<longrightarrow>
               dict_get (self_data g2) c =
                 Some (CircuitsObj (fst (snd (discovery env g1 c t1))))) \<and>
            (\<exists>schema. py_getitem (self_db g1) SENSORS = Inr schema \<and>
               dict_get (self_data g2) SENSORS =
                 Some (SensorsObj (Sensors_new env schema schema))) \<and>
            (\<forall>k. k \<notin> set (CIRCUIT_TYPES env) \<and> k \<noteq> SENSORS \<longrightarrow>
               dict_get (self_data g2) k = dict_get (self_data g) k)"
    if "r2 = Inr sup" for sup
  proof -
    from that stable ok obtain schema where
      schema: "py_getitem (self_db g) SENSORS = Inr schema" and
      vs: "vs = map (\<lambda>c. (c, CircuitsObj (fst (snd (discovery env g c t))))) (CIRCUIT_TYPES env) @
                [(SENSORS, SensorsObj (Sensors_new env schema schema))]" and
      sup: "sup = filter (\<lambda>c. found env g (c, t)) (CIRCUIT_TYPES env) @ [SENSOR]"
      by auto
    have look: "dict_get (self_data g2) k =
                  (if k = SENSORS then Some (SensorsObj (Sensors_new env schema schema))
                   else if k \<in> set (CIRCUIT_TYPES env)
                     then Some (CircuitsObj (fst (snd (discovery env g k t))))
                     else dict_get (self_data g) k)" for k
      by (simp add: stable(2) first vs dict_update_snoc dict_get_setitem dict_get_dict_update_map)
    show ?thesis
      using schema sup by (auto simp: look fnd disc out same)
  qed
  have errors: "(e \<noteq> DeviceException \<and>
             (\<exists>c\<in>set (CIRCUIT_TYPES env). fst (discovery env g1 c t1) = Inl e)) \<or>
            (\<exists>e'. py_getitem (self_db g1) SENSORS = Inl e')"
    if "r2 = Inl e" for e
    using that stable bad by (simp add: disc out same)
  from stable slots errors show ?thesis
    by blast
qed


lemma example_device_steady: "steady_device example_env example_gateway example_transport"
proof (unfold steady_device_def, intro allI impI)
  fix c and t1 :: transport
  assume r: "reply t1 = reply example_transport"
  have hist: "example_reply h = example_reply []" for h
    by (rule ext) (simp add: example_reply_def)
  have eq: "reply t1 (fetched t1) = reply example_transport (fetched example_transport)"
    using r hist [of "fetched t1"] by (simp add: example_transport_def)
  have d: "discovery example_env example_gateway c t1 =
      (case connector_get
             (PStr (if c = HC then ''/heatingCircuits''
                    else if c = DHW then ''/dhwCircuits'' else ''/solarCircuits'')) t1 of
        (Inl e, t2) \<Rightarrow> (Inl e, [], t2)
      | (Inr (PList children), t2) \<Rightarrow>
          (Inr (), concat (map (\<lambda>c. case py_get c ID of Inr (PStr p) \<Rightarrow> [p] | _ \<Rightarrow> []) children), t2)
      | (Inr _, t2) \<Rightarrow> (Inr (), [], t2))" for t1
    by (simp add: discovery_def example_env_def example_Circuits_initialize_def)
  show "fst (discovery example_env example_gateway c t1) =
          fst (discovery example_env example_gateway c example_transport) \<and>
        fst (snd (discovery example_env example_gateway c t1)) =
          fst (snd (discovery example_env example_gateway c example_transport)) \<and>
        reply (snd (snd (discovery example_env example_gateway c t1))) = reply example_transport"
    unfolding d connector_get_def eq
    by (simp add: r split: option.splits pyval.splits)
qed


theorem get_capabilities_twice_witness:
  "steady_device example_env example_gateway example_transport \<and>
   fst (get_capabilities example_env (example_gateway, example_transport)) = Inr [HC, SENSOR] \<and>
   fst (get_capabilities example_env
          (snd (get_capabilities example_env (example_gateway, example_transport)))) =
     Inr [HC, SENSOR] \<and>
   fst (snd (get_capabilities example_env
               (snd (get_capabilities example_env (example_gateway, example_transport))))) =
     fst (snd (get_capabilities example_env (example_gateway, example_transport))) \<and>
   HC \<in> set (CIRCUIT_TYPES example_env) \<and> HC \<noteq> SENSORS \<and>
   dict_get
     (self_data (fst (snd (get_capabilities example_env
        (snd (get_capabilities example_env (example_gateway, example_transport))))))) HC =
     Some (CircuitsObj [''/heatingCircuits/hc1''])"
proof -
  let ?first = "get_capabilities example_env (example_gateway, example_transport)"
  let ?second = "get_capabilities example_env (fst (snd ?first), snd (snd ?first))"
  have run1: "?first = (fst ?first, fst (snd ?first), snd (snd ?first))"
    by simp
  have run2: "?second = (fst ?second, fst (snd ?second), snd (snd ?second))"
    by simp
  have result: "fst ?first = Inr [HC, SENSOR]"
    by code_simp
  have member: "HC \<in> set (CIRCUIT_TYPES example_env)" "HC \<noteq> SENSORS"
    by code_simp+
  have found_hc: "fst (snd (discovery example_env (fst (snd ?first)) HC (snd (snd ?first)))) =
                    [''/heatingCircuits/hc1'']"
    by code_simp
  note twice = get_capabilities_twice [OF example_device_steady run1 run2]
  from twice result have same: "fst ?second = Inr [HC, SENSOR]" "fst (snd ?second) = fst (snd ?first)"
    by simp_all
  from twice same(1) member found_hc
  have slot: "dict_get (self_data (fst (snd ?second))) HC = Some (CircuitsObj [''/heatingCircuits/hc1''])"
    by (metis (no_types, lifting))
  from example_device_steady result same member slot show ?thesis
    by simp
qed


subsection \<open>The flag and the bound schema\<close>

text \<open>
  A schema is bound only together with the flag: the constructor binds none, and when the
  two methods of the device family leave the schema and the flag alone, \<^verbatim>\<open>initialize\<close>
  and \<^verbatim>\<open>custom_initialize\<close> keep the flag set wherever a schema is bound.
\<close>

lemma bound_schema_is_initialized:
  assumes "\<forall>sec s. self_db (fst (snd (update_info env sec s))) = self_db (fst s) \<and>
             self_initialized (fst (snd (update_info env sec s))) = self_initialized (fst s)"
      and "\<forall>db s. self_db (fst (snd (get_device_model env db s))) = self_db (fst s) \<and>
             self_initialized (fst (snd (get_device_model env db s))) = self_initialized (fst s)"
      and "truthy (self_db g) \<longrightarrow> truthy (self_initialized g)"
  shows "\<not> truthy (self_db (BaseGateway h))"
    and "initialize env (g, t) = (r, g', t') \<Longrightarrow>
         truthy (self_db g') \<longrightarrow> truthy (self_initialized g')"
    and "truthy (self_db (custom_initialize env extra_db g)) \<longrightarrow>
         truthy (self_initialized (custom_initialize env extra_db g))"
proof -
  show "\<not> truthy (self_db (BaseGateway h))"
    by (simp add: BaseGateway_def)
  show "truthy (self_db (custom_initialize env extra_db g)) \<longrightarrow>
         truthy (self_initialized (custom_initialize env extra_db g))"
    using assms(3) by (simp add: custom_initialize_def)
  assume run: "initialize env (g, t) = (r, g', t')"
  then show "truthy (self_db g') \<longrightarrow> truthy (self_initialized g')"
  proof (cases rule: initialize_steps)
    case (info_error e)
    from assms(1) [rule_format, of _ "(g, t)"] info_error(1) assms(3) show ?thesis
      by (metis fst_conv snd_conv)
  next
    case (no_info u g1 e)
    from assms(1) [rule_format, of _ "(g, t)"] no_info(1,4) assms(3) show ?thesis
      by (metis fst_conv snd_conv)
  next
    case (model u g1 t1 fw r2 g2)
    from assms(1) [rule_format, of _ "(g, t)"] model(1)
    have f1: "self_db g1 = self_db g" "self_initialized g1 = self_initialized g"
      by (metis fst_conv snd_conv)+
    from assms(2) [rule_format, of "get_base_db env" "(g1\<lparr>self_firmware_version := fw\<rparr>, t1)"]
         model(3)
    have f2: "self_db g2 = self_db g1" "self_initialized g2 = self_initialized g1"
      by simp_all
    from model(4) f1 f2 assms(3) show ?thesis
      by (auto split: sum.splits option.splits if_splits)
  qed
qed

end
